theory Spec2Isabelle
  imports Main
begin

section \<open>Values and faults\<close>

text \<open>
  The identifiers that reach the models are JavaScript values of two kinds: numbers
  (the \<open>id\<close> of the token payload, and every integer column of a row returned by the
  store) and strings (every route parameter \<open>req.params.x\<close>).
\<close>

datatype jsval = JNum int | JStr string

text \<open>The strict equality \<open>===\<close>: values of different types are never equal.\<close>

fun strict_eq :: "jsval \<Rightarrow> jsval \<Rightarrow> bool" where
  "strict_eq (JNum a) (JNum b) = (a = b)"
| "strict_eq (JStr a) (JStr b) = (a = b)"
| "strict_eq (JNum a) (JStr b) = False"
| "strict_eq (JStr a) (JNum b) = False"

text \<open>
  The errors of \<open>expressError\<close> that the modelled code throws, the \<open>TypeError\<close> of
  reading a property of \<open>undefined\<close>, and the error of a query the store rejects.
\<close>

datatype fault = Unauthorized | NotFound | BadRequest | TypeError | DbError

subsection \<open>Decimal text\<close>

definition is_digit :: "char \<Rightarrow> bool" where
  "is_digit c = (48 \<le> (of_char c :: nat) \<and> (of_char c :: nat) \<le> 57)"

fun nat_of_digits :: "nat \<Rightarrow> string \<Rightarrow> nat" where
  "nat_of_digits acc [] = acc"
| "nat_of_digits acc (c # cs) = nat_of_digits (acc * 10 + ((of_char c :: nat) - 48)) cs"

text \<open>The decimal digits of a number, as template literals print \<open>${idx + 1}\<close>.\<close>

definition digit_char :: "nat \<Rightarrow> char" where
  "digit_char d = ''0123456789'' ! d"

function string_of_nat :: "nat \<Rightarrow> string" where
  "string_of_nat n =
     (if n < 10 then [digit_char n]
      else string_of_nat (n div 10) @ [digit_char (n mod 10)])"
  by pat_completeness auto
termination
  by (relation "measure (\<lambda>n. n)") auto

text \<open>
  A query parameter compared with an integer column (\<open>WHERE id=$1\<close>). Every id column
  of the schema is an \<open>INTEGER\<close> or a \<open>SERIAL\<close>, a signed 32-bit integer. The driver
  sends a number as its decimal text and a string as it is; the store reads the text as
  a 32-bit integer and rejects the query, which then throws, when the text is not one
  or the value is out of range. The integer syntax modelled is an optional minus sign
  and decimal digits; the white space and the plus sign that the store also accepts
  are left out, so a text with them counts as rejected here.
\<close>

definition in_int4 :: "int \<Rightarrow> bool" where
  "in_int4 n = (- 2147483648 \<le> n \<and> n \<le> 2147483647)"

definition decimal_of_text :: "string \<Rightarrow> int option" where
  "decimal_of_text s =
     (case s of
        [] \<Rightarrow> None
      | c # cs \<Rightarrow>
          if c = CHR ''-'' then
            (if cs \<noteq> [] \<and> list_all is_digit cs then Some (- int (nat_of_digits 0 cs)) else None)
          else if list_all is_digit s then Some (int (nat_of_digits 0 s))
          else None)"

definition int_of_text :: "string \<Rightarrow> int option" where
  "int_of_text s =
     (case decimal_of_text s of
        None \<Rightarrow> None
      | Some n \<Rightarrow> if in_int4 n then Some n else None)"

fun pg_int :: "jsval \<Rightarrow> int option" where
  "pg_int (JNum n) = (if in_int4 n then Some n else None)"
| "pg_int (JStr s) = int_of_text s"

section \<open>helpers/sql.js\<close>

text \<open>
  \<open>dataToUpdate\<close> is the list of the object's own properties in the order
  \<open>Object.keys\<close> and \<open>Object.values\<close> enumerate them; \<open>jsToSql\<close> is a lookup table from
  attribute names to column names, given by its own properties. The lookup
  \<open>jsToSql[columnName]\<close> reads an own property first and otherwise what the object
  inherits from \<open>Object.prototype\<close>; \<open>|| columnName\<close> then takes the attribute name
  when the lookup gave \<open>undefined\<close> and also when it gave the empty string, which is
  falsy. The record field \<open>values_of\<close> is the \<open>values\<close> of the returned object.
\<close>

text \<open>
  The properties that every object literal inherits, each with the text that a
  template literal prints for its value on Node.js: the source text of a built-in
  function, and \<open>[object Object]\<close> for the prototype itself under \<open>__proto__\<close>. Each
  of these values is truthy.
\<close>

definition native_function :: "string \<Rightarrow> string" where
  "native_function name = ''function '' @ name @ ''() { [native code] }''"

definition object_prototype :: "string \<rightharpoonup> string" where
  "object_prototype =
     [''constructor'' \<mapsto> native_function ''Object'',
      ''__defineGetter__'' \<mapsto> native_function ''__defineGetter__'',
      ''__defineSetter__'' \<mapsto> native_function ''__defineSetter__'',
      ''hasOwnProperty'' \<mapsto> native_function ''hasOwnProperty'',
      ''__lookupGetter__'' \<mapsto> native_function ''__lookupGetter__'',
      ''__lookupSetter__'' \<mapsto> native_function ''__lookupSetter__'',
      ''isPrototypeOf'' \<mapsto> native_function ''isPrototypeOf'',
      ''propertyIsEnumerable'' \<mapsto> native_function ''propertyIsEnumerable'',
      ''toString'' \<mapsto> native_function ''toString'',
      ''valueOf'' \<mapsto> native_function ''valueOf'',
      ''toLocaleString'' \<mapsto> native_function ''toLocaleString'',
      ''__proto__'' \<mapsto> ''[object Object]'']"

definition dquote :: char where
  "dquote = CHR 0x22"

definition sql_column :: "(string \<rightharpoonup> string) \<Rightarrow> string \<Rightarrow> string" where
  "sql_column jsToSql columnName =
     (case jsToSql columnName of
        Some c \<Rightarrow> if c = [] then columnName else c
      | None \<Rightarrow>
          (case object_prototype columnName of
             Some inherited \<Rightarrow> inherited
           | None \<Rightarrow> columnName))"

definition sql_fragment :: "(string \<rightharpoonup> string) \<Rightarrow> string \<Rightarrow> nat \<Rightarrow> string" where
  "sql_fragment jsToSql columnName idx =
     [dquote] @ sql_column jsToSql columnName @ [dquote] @ ''=$'' @ string_of_nat (idx + 1)"

text \<open>\<open>keys.map((columnName, idx) => ...)\<close>, the index counted from \<open>idx\<close>.\<close>

fun map_idx :: "(string \<rightharpoonup> string) \<Rightarrow> nat \<Rightarrow> string list \<Rightarrow> string list" where
  "map_idx jsToSql idx [] = []"
| "map_idx jsToSql idx (k # ks) = sql_fragment jsToSql k idx # map_idx jsToSql (Suc idx) ks"

fun join :: "string \<Rightarrow> string list \<Rightarrow> string" where
  "join sep [] = []"
| "join sep [x] = x"
| "join sep (x # y # ys) = x @ sep @ join sep (y # ys)"

record 'v partial_update =
  sqlSetCols :: string
  values_of :: "'v list"

definition sql_columns :: "(string \<times> 'v) list \<Rightarrow> (string \<rightharpoonup> string) \<Rightarrow> string list" where
  "sql_columns dataToUpdate jsToSql = map_idx jsToSql 0 (map fst dataToUpdate)"

definition sqlForPartialUpdate ::
  "(string \<times> 'v) list \<Rightarrow> (string \<rightharpoonup> string) \<Rightarrow> fault + 'v partial_update" where
  "sqlForPartialUpdate dataToUpdate jsToSql =
     (let keys = map fst dataToUpdate in
      if length keys = 0 then Inl BadRequest
      else Inr \<lparr> sqlSetCols = join '', '' (sql_columns dataToUpdate jsToSql),
                 values_of = map snd dataToUpdate \<rparr>)"

section \<open>The store\<close>

text \<open>
  The tables of \<open>proma-schema.sql\<close> that the modelled queries read, each a list of rows
  (\<open>categories\<close> is read by none of them). A query's \<open>rows\<close> is a filtered list and
  \<open>rows[0]\<close> its first element, \<open>undefined\<close> when there is none.
\<close>

record user_row =
  u_id :: int
  u_email :: string
  u_first_name :: string
  u_last_name :: string
  u_password :: string
  u_is_pm :: bool

record board_row =
  b_id :: int
  b_title :: string

record bu_row =
  bu_board_id :: int
  bu_user_id :: int

record project_row =
  p_id :: int
  p_name :: string
  p_priority :: int
  p_stage :: string
  p_board_id :: int

record pu_row =
  pu_project_id :: int
  pu_user_id :: int

record session_row =
  s_id :: int
  s_project_id :: int
  s_user_id :: int
  s_start_datetime :: int
  s_end_datetime :: "int option"
  s_category_id :: int
  s_comment :: "string option"

record store =
  users :: "user_row list"
  boards :: "board_row list"
  boards_users :: "bu_row list"
  projects :: "project_row list"
  projects_users :: "pu_row list"
  sessions :: "session_row list"

text \<open>
  The key constraints of the schema: primary keys are 32-bit integers (\<open>SERIAL\<close>)
  and unique, and every foreign key names a row of the table it references. (The
  \<open>CHECK\<close> constraints on single columns play no part in what follows.)
\<close>

definition wf_store :: "store \<Rightarrow> bool" where
  "wf_store s =
     (list_all in_int4 (map u_id (users s)) \<and>
      list_all in_int4 (map b_id (boards s)) \<and>
      list_all in_int4 (map p_id (projects s)) \<and>
      list_all in_int4 (map s_id (sessions s)) \<and>
      distinct (map u_id (users s)) \<and>
      distinct (map b_id (boards s)) \<and>
      distinct (map p_id (projects s)) \<and>
      distinct (map s_id (sessions s)) \<and>
      distinct (boards_users s) \<and>
      distinct (projects_users s) \<and>
      list_all (\<lambda>r. bu_board_id r \<in> set (map b_id (boards s)) \<and>
                      bu_user_id r \<in> set (map u_id (users s))) (boards_users s) \<and>
      list_all (\<lambda>r. p_board_id r \<in> set (map b_id (boards s))) (projects s) \<and>
      list_all (\<lambda>r. pu_project_id r \<in> set (map p_id (projects s)) \<and>
                      pu_user_id r \<in> set (map u_id (users s))) (projects_users s) \<and>
      list_all (\<lambda>r. s_project_id r \<in> set (map p_id (projects s)) \<and>
                      s_user_id r \<in> set (map u_id (users s))) (sessions s))"

text \<open>A row \<open>(user_id, board_id)\<close> of \<open>boards_users\<close>: the board membership.\<close>

definition on_board :: "store \<Rightarrow> int \<Rightarrow> int \<Rightarrow> bool" where
  "on_board s u b = (\<lparr> bu_board_id = b, bu_user_id = u \<rparr> \<in> set (boards_users s))"

definition on_project :: "store \<Rightarrow> int \<Rightarrow> int \<Rightarrow> bool" where
  "on_project s u p = (\<lparr> pu_project_id = p, pu_user_id = u \<rparr> \<in> set (projects_users s))"

section \<open>models/board.js\<close>

definition Board_isUserOnBoard :: "store \<Rightarrow> jsval \<Rightarrow> jsval \<Rightarrow> fault + bool" where
  "Board_isUserOnBoard s userId boardId =
     (case pg_int boardId of
        None \<Rightarrow> Inl DbError
      | Some b \<Rightarrow>
          (case filter (\<lambda>r. b_id r = b) (boards s) of
             [] \<Rightarrow> Inl NotFound
           | board # _ \<Rightarrow>
               (case pg_int userId of
                  None \<Rightarrow> Inl DbError
                | Some u \<Rightarrow>
                    Inr (0 < length (filter (\<lambda>r. bu_user_id r = u \<and> bu_board_id r = b)
                                       (boards_users s))))))"

text \<open>
  \<open>removeUserFromBoard\<close> changes the store: the result comes with the store after the
  \<open>DELETE\<close>, whose \<open>RETURNING\<close> rows are the rows it deleted.
\<close>

definition Board_removeUserFromBoard ::
  "store \<Rightarrow> jsval \<Rightarrow> jsval \<Rightarrow> (fault + unit) \<times> store" where
  "Board_removeUserFromBoard s userId boardId =
     (case pg_int userId of
        None \<Rightarrow> (Inl DbError, s)
      | Some u \<Rightarrow>
          (case pg_int boardId of
             None \<Rightarrow> (Inl DbError, s)
           | Some b \<Rightarrow>
               (let deleted = filter (\<lambda>r. bu_user_id r = u \<and> bu_board_id r = b) (boards_users s);
                    s' = s\<lparr> boards_users :=
                            filter (\<lambda>r. \<not> (bu_user_id r = u \<and> bu_board_id r = b)) (boards_users s) \<rparr>
                in case deleted of
                     [] \<Rightarrow> (Inl NotFound, s')
                   | boardUser # _ \<Rightarrow> (Inr (), s'))))"

section \<open>models/project.js\<close>

definition Project_getById :: "store \<Rightarrow> jsval \<Rightarrow> fault + project_row" where
  "Project_getById s projectId =
     (case pg_int projectId of
        None \<Rightarrow> Inl DbError
      | Some p \<Rightarrow>
          (case filter (\<lambda>r. p_id r = p) (projects s) of
             [] \<Rightarrow> Inl NotFound
           | project # _ \<Rightarrow> Inr project))"

definition Project_isUserOnProject :: "store \<Rightarrow> jsval \<Rightarrow> jsval \<Rightarrow> fault + bool" where
  "Project_isUserOnProject s userId projectId =
     (case pg_int userId of
        None \<Rightarrow> Inl DbError
      | Some u \<Rightarrow>
          (case pg_int projectId of
             None \<Rightarrow> Inl DbError
           | Some p \<Rightarrow>
               Inr (0 < length (filter (\<lambda>r. pu_user_id r = u \<and> pu_project_id r = p)
                                  (projects_users s)))))"

section \<open>models/session.js\<close>

text \<open>\<open>getById\<close> returns \<open>rows[0]\<close> as it is: \<open>None\<close> is \<open>undefined\<close>.\<close>

definition Session_getById :: "store \<Rightarrow> jsval \<Rightarrow> fault + session_row option" where
  "Session_getById s sessionId =
     (case pg_int sessionId of
        None \<Rightarrow> Inl DbError
      | Some n \<Rightarrow>
          Inr (case filter (\<lambda>r. s_id r = n) (sessions s) of
                 [] \<Rightarrow> None
               | session # _ \<Rightarrow> Some session))"

definition Session_getBoardId :: "store \<Rightarrow> jsval \<Rightarrow> fault + int" where
  "Session_getBoardId s sessionId =
     (case pg_int sessionId of
        None \<Rightarrow> Inl DbError
      | Some n \<Rightarrow>
          (case filter (\<lambda>r. s_id r = n) (sessions s) of
             [] \<Rightarrow> Inl NotFound
           | session # _ \<Rightarrow>
               (case [p_board_id p. ss \<leftarrow> sessions s, s_id ss = n,
                                    p \<leftarrow> projects s, s_project_id ss = p_id p] of
                  [] \<Rightarrow> Inl TypeError
                | boardId # _ \<Rightarrow> Inr boardId)))"

section \<open>models/user.js\<close>

text \<open>The object a user query returns: the row without its password.\<close>

record user_obj =
  uo_id :: int
  uo_email :: string
  uo_firstName :: string
  uo_lastName :: string
  uo_isPm :: bool

definition user_obj_of :: "user_row \<Rightarrow> user_obj" where
  "user_obj_of r = \<lparr> uo_id = u_id r, uo_email = u_email r, uo_firstName = u_first_name r,
                      uo_lastName = u_last_name r, uo_isPm = u_is_pm r \<rparr>"

text \<open>
  The join of \<open>getAllFromSharedBoards\<close>: \<open>users u JOIN boards_users bu1 ON
  u.id=bu1.user_id JOIN boards_users bu2 ON bu1.board_id=bu2.board_id WHERE
  bu2.user_id=$1\<close>, and \<open>SELECT DISTINCT\<close> over the selected columns.
\<close>

definition shared_join :: "store \<Rightarrow> int \<Rightarrow> user_obj list" where
  "shared_join s n =
     [user_obj_of u. u \<leftarrow> users s, bu1 \<leftarrow> boards_users s, u_id u = bu_user_id bu1,
                     bu2 \<leftarrow> boards_users s, bu_board_id bu1 = bu_board_id bu2,
                     bu_user_id bu2 = n]"

definition User_getAllFromSharedBoards :: "store \<Rightarrow> jsval \<Rightarrow> fault + user_obj list" where
  "User_getAllFromSharedBoards s userId =
     (case pg_int userId of
        None \<Rightarrow> Inl DbError
      | Some n \<Rightarrow>
          (case filter (\<lambda>r. u_id r = n) (users s) of
             [] \<Rightarrow> Inl NotFound
           | user # _ \<Rightarrow> Inr (remdups (shared_join s n))))"

section \<open>middleware/auth.js\<close>

text \<open>
  \<open>res.locals.user\<close> is the payload of the verified token, \<open>{id, email, isPm}\<close> with a
  numeric \<open>id\<close> (\<open>createToken\<close> copies it from a row of \<open>users\<close>), or \<open>undefined\<close>
  when no token was verified. \<open>req.params\<close> holds the strings the router cut out of
  the path; a middleware reads only the parameters its route binds.
\<close>

record actor =
  a_id :: int
  a_email :: string
  a_isPm :: bool

record request =
  locals_user :: "actor option"
  param_boardId :: string
  param_projectId :: string
  param_sessionId :: string
  param_userId :: string

text \<open>
  A middleware ends in \<open>next()\<close>, modelled as \<open>Inr ()\<close>, or in \<open>next(err)\<close> with the
  error its \<open>try\<close> block caught, modelled as \<open>Inl err\<close>.
\<close>

definition ensureLoggedIn :: "store \<Rightarrow> request \<Rightarrow> fault + unit" where
  "ensureLoggedIn s req =
     (case locals_user req of
        None \<Rightarrow> Inl Unauthorized
      | Some user \<Rightarrow> Inr ())"

definition ensurePm :: "store \<Rightarrow> request \<Rightarrow> fault + unit" where
  "ensurePm s req =
     (case locals_user req of
        None \<Rightarrow> Inl Unauthorized
      | Some user \<Rightarrow> if \<not> a_isPm user then Inl Unauthorized else Inr ())"

text \<open>
  \<open>parseInt(str, 10)\<close>: leading white space, an optional sign, then the longest run of
  decimal digits; \<open>None\<close> is \<open>NaN\<close>, which equals no number.
\<close>

definition is_space :: "char \<Rightarrow> bool" where
  "is_space c = (c \<in> set [CHR '' '', CHR 0x09, CHR 0x0A, CHR 0x0B, CHR 0x0C, CHR 0x0D])"

definition js_parseInt :: "string \<Rightarrow> int option" where
  "js_parseInt str =
     (let t = dropWhile is_space str;
          neg = (case t of [] \<Rightarrow> False | c # cs \<Rightarrow> c = CHR ''-'');
          r = (case t of [] \<Rightarrow> [] | c # cs \<Rightarrow> if c = CHR ''-'' \<or> c = CHR ''+'' then cs else t);
          ds = takeWhile is_digit r
      in if ds = [] then None
         else Some (if neg then - int (nat_of_digits 0 ds) else int (nat_of_digits 0 ds)))"

definition ensureCorrectUserOrPm :: "store \<Rightarrow> request \<Rightarrow> fault + unit" where
  "ensureCorrectUserOrPm s req =
     (case locals_user req of
        None \<Rightarrow> Inl Unauthorized
      | Some user \<Rightarrow>
          if \<not> (a_isPm user \<or> Some (a_id user) = js_parseInt (param_userId req))
          then Inl Unauthorized else Inr ())"

definition ensureUserOnBoard :: "store \<Rightarrow> request \<Rightarrow> fault + unit" where
  "ensureUserOnBoard s req =
     (case locals_user req of
        None \<Rightarrow> Inl TypeError
      | Some user \<Rightarrow>
          (case Board_isUserOnBoard s (JNum (a_id user)) (JStr (param_boardId req)) of
             Inl err \<Rightarrow> Inl err
           | Inr isUserOnBoard \<Rightarrow> if \<not> isUserOnBoard then Inl Unauthorized else Inr ()))"

definition ensureUserOnBoardOfProject :: "store \<Rightarrow> request \<Rightarrow> fault + unit" where
  "ensureUserOnBoardOfProject s req =
     (case Project_getById s (JStr (param_projectId req)) of
        Inl err \<Rightarrow> Inl err
      | Inr project \<Rightarrow>
          (case locals_user req of
             None \<Rightarrow> Inl TypeError
           | Some user \<Rightarrow>
               (case Board_isUserOnBoard s (JNum (a_id user)) (JNum (p_board_id project)) of
                  Inl err \<Rightarrow> Inl err
                | Inr isUserOnBoard \<Rightarrow> if \<not> isUserOnBoard then Inl Unauthorized else Inr ())))"

definition ensureUserOnSessionBoard :: "store \<Rightarrow> request \<Rightarrow> fault + unit" where
  "ensureUserOnSessionBoard s req =
     (case Session_getBoardId s (JStr (param_sessionId req)) of
        Inl err \<Rightarrow> Inl err
      | Inr boardId \<Rightarrow>
          (case locals_user req of
             None \<Rightarrow> Inl TypeError
           | Some user \<Rightarrow>
               (case Board_isUserOnBoard s (JNum (a_id user)) (JNum boardId) of
                  Inl err \<Rightarrow> Inl err
                | Inr isUserOnBoard \<Rightarrow> if \<not> isUserOnBoard then Inl Unauthorized else Inr ())))"

definition ensureUserOnSessionOrPm :: "store \<Rightarrow> request \<Rightarrow> fault + unit" where
  "ensureUserOnSessionOrPm s req =
     (case Session_getById s (JStr (param_sessionId req)) of
        Inl err \<Rightarrow> Inl err
      | Inr None \<Rightarrow> Inl TypeError
      | Inr (Some session) \<Rightarrow>
          (case Project_getById s (JNum (s_project_id session)) of
             Inl err \<Rightarrow> Inl err
           | Inr project \<Rightarrow>
               (case locals_user req of
                  None \<Rightarrow> Inl TypeError
                | Some user \<Rightarrow>
                    (case Board_isUserOnBoard s (JNum (a_id user)) (JNum (p_board_id project)) of
                       Inl err \<Rightarrow> Inl err
                     | Inr isPmOnBoard \<Rightarrow>
                         if \<not> (strict_eq (JNum (s_user_id session)) (JNum (a_id user)) \<or>
                                (a_isPm user \<and> isPmOnBoard))
                         then Inl Unauthorized else Inr ()))))"

definition ensureUserOnProjectOrPm :: "store \<Rightarrow> request \<Rightarrow> fault + unit" where
  "ensureUserOnProjectOrPm s req =
     (case Project_getById s (JStr (param_projectId req)) of
        Inl err \<Rightarrow> Inl err
      | Inr project \<Rightarrow>
          (case locals_user req of
             None \<Rightarrow> Inl TypeError
           | Some user \<Rightarrow>
               (case Project_isUserOnProject s (JNum (a_id user)) (JStr (param_projectId req)) of
                  Inl err \<Rightarrow> Inl err
                | Inr isUserOnProject \<Rightarrow>
                    (case Board_isUserOnBoard s (JNum (a_id user)) (JNum (p_board_id project)) of
                       Inl err \<Rightarrow> Inl err
                     | Inr isPmOnBoard \<Rightarrow>
                         if \<not> (isUserOnProject \<or> isPmOnBoard)
                         then Inl Unauthorized else Inr ()))))"

text \<open>
  \<open>sharedUsers.some(sharedUser => sharedUser.id === user.id)\<close> reads \<open>user.id\<close> once
  per element: with no actor it throws on the first element and is \<open>false\<close> on an
  empty list.
\<close>

definition ensureCorrectUserOrSharedBoardPm :: "store \<Rightarrow> request \<Rightarrow> fault + unit" where
  "ensureCorrectUserOrSharedBoardPm s req =
     (case User_getAllFromSharedBoards s (JStr (param_userId req)) of
        Inl err \<Rightarrow> Inl err
      | Inr sharedUsers \<Rightarrow>
          (case locals_user req of
             None \<Rightarrow> Inl TypeError
           | Some user \<Rightarrow>
               (let isSharedUser =
                      list_ex (\<lambda>sharedUser. strict_eq (JNum (uo_id sharedUser)) (JNum (a_id user)))
                        sharedUsers
                in if \<not> (strict_eq (JNum (a_id user)) (JStr (param_userId req)) \<or>
                          (a_isPm user \<and> isSharedUser))
                   then Inl Unauthorized else Inr ())))"

definition ensureUserOnSharedBoard :: "store \<Rightarrow> request \<Rightarrow> fault + unit" where
  "ensureUserOnSharedBoard s req =
     (case User_getAllFromSharedBoards s (JStr (param_userId req)) of
        Inl err \<Rightarrow> Inl err
      | Inr sharedUsers \<Rightarrow>
          (case locals_user req of
             None \<Rightarrow> if sharedUsers = [] then Inl Unauthorized else Inl TypeError
           | Some loggedInUser \<Rightarrow>
               (let isSharedUser =
                      list_ex (\<lambda>sharedUser. strict_eq (JNum (uo_id sharedUser))
                                             (JNum (a_id loggedInUser)))
                        sharedUsers
                in if \<not> isSharedUser then Inl Unauthorized else Inr ())))"

section \<open>The routes and their middleware chains\<close>

datatype guard =
    LoggedIn | Pm | CorrectUserOrPm | UserOnBoard | UserOnBoardOfProject
  | UserOnSessionBoard | UserOnSessionOrPm | UserOnProjectOrPm
  | CorrectUserOrSharedBoardPm | UserOnSharedBoard

fun run_guard :: "store \<Rightarrow> request \<Rightarrow> guard \<Rightarrow> fault + unit" where
  "run_guard s req LoggedIn = ensureLoggedIn s req"
| "run_guard s req Pm = ensurePm s req"
| "run_guard s req CorrectUserOrPm = ensureCorrectUserOrPm s req"
| "run_guard s req UserOnBoard = ensureUserOnBoard s req"
| "run_guard s req UserOnBoardOfProject = ensureUserOnBoardOfProject s req"
| "run_guard s req UserOnSessionBoard = ensureUserOnSessionBoard s req"
| "run_guard s req UserOnSessionOrPm = ensureUserOnSessionOrPm s req"
| "run_guard s req UserOnProjectOrPm = ensureUserOnProjectOrPm s req"
| "run_guard s req CorrectUserOrSharedBoardPm = ensureCorrectUserOrSharedBoardPm s req"
| "run_guard s req UserOnSharedBoard = ensureUserOnSharedBoard s req"

text \<open>
  The router runs the middlewares of a route in order; the first \<open>next(err)\<close> skips the
  rest and the handler.
\<close>

fun run_chain :: "store \<Rightarrow> request \<Rightarrow> guard list \<Rightarrow> fault + unit" where
  "run_chain s req [] = Inr ()"
| "run_chain s req (g # gs) =
     (case run_guard s req g of
        Inl err \<Rightarrow> Inl err
      | Inr ok \<Rightarrow> run_chain s req gs)"

text \<open>
  Every route of \<open>routes/boards.js\<close>, \<open>routes/projects.js\<close>, \<open>routes/sessions.js\<close>,
  \<open>routes/users.js\<close>, \<open>routes/categories.js\<close> and \<open>routes/auth.js\<close>, named by
  method and path.
\<close>

datatype route =
    GET_boards | POST_boards | GET_board | PATCH_board | GET_board_users
  | POST_board_users | DELETE_board_users | GET_board_projects | POST_board_projects
  | GET_projects | GET_project | PATCH_project | GET_project_users
  | POST_project_users | DELETE_project_users | GET_project_sessions
  | POST_project_sessions
  | GET_sessions | GET_session | PATCH_session | DELETE_session
  | GET_users | GET_users_search | GET_user | PATCH_user
  | GET_categories | POST_auth_token | POST_auth_register

fun chain :: "route \<Rightarrow> guard list" where
  "chain GET_boards = [LoggedIn]"
| "chain POST_boards = [Pm]"
| "chain GET_board = [LoggedIn, UserOnBoard]"
| "chain PATCH_board = [Pm, UserOnBoard]"
| "chain GET_board_users = [LoggedIn, UserOnBoard]"
| "chain POST_board_users = [Pm, UserOnBoard]"
| "chain DELETE_board_users = [Pm, UserOnBoard]"
| "chain GET_board_projects = [LoggedIn, UserOnBoard]"
| "chain POST_board_projects = [Pm, UserOnBoard]"
| "chain GET_projects = [LoggedIn]"
| "chain GET_project = [LoggedIn, UserOnBoardOfProject]"
| "chain PATCH_project = [Pm, UserOnBoardOfProject]"
| "chain GET_project_users = [LoggedIn, UserOnBoardOfProject]"
| "chain POST_project_users = [Pm, UserOnBoardOfProject]"
| "chain DELETE_project_users = [Pm, UserOnBoardOfProject]"
| "chain GET_project_sessions = [LoggedIn, UserOnBoardOfProject]"
| "chain POST_project_sessions = [LoggedIn, UserOnProjectOrPm]"
| "chain GET_sessions = [LoggedIn]"
| "chain GET_session = [LoggedIn, UserOnSessionBoard]"
| "chain PATCH_session = [LoggedIn, UserOnSessionOrPm]"
| "chain DELETE_session = [LoggedIn, UserOnSessionOrPm]"
| "chain GET_users = [LoggedIn]"
| "chain GET_users_search = [LoggedIn]"
| "chain GET_user = [LoggedIn, UserOnSharedBoard]"
| "chain PATCH_user = [LoggedIn, CorrectUserOrSharedBoardPm]"
| "chain GET_categories = [LoggedIn]"
| "chain POST_auth_token = []"
| "chain POST_auth_register = []"

section \<open>Example stores and requests\<close>

text \<open>
  A store that satisfies the schema: a project manager (user 1) and a member (user 2)
  on board 1, a member (user 3) on board 2, a project manager (user 4) on no board, a
  project on each board, nobody assigned to a project, and one session of user 2 on
  project 10.
\<close>

definition team :: store where
  "team =
     \<lparr> users =
         [\<lparr> u_id = 1, u_email = ''pm@proma.test'', u_first_name = ''Pat'',
            u_last_name = ''Manager'', u_password = ''hash1'', u_is_pm = True \<rparr>,
          \<lparr> u_id = 2, u_email = ''member@proma.test'', u_first_name = ''Mel'',
            u_last_name = ''Member'', u_password = ''hash2'', u_is_pm = False \<rparr>,
          \<lparr> u_id = 3, u_email = ''other@proma.test'', u_first_name = ''Olu'',
            u_last_name = ''Other'', u_password = ''hash3'', u_is_pm = False \<rparr>,
          \<lparr> u_id = 4, u_email = ''newpm@proma.test'', u_first_name = ''Noa'',
            u_last_name = ''Newpm'', u_password = ''hash4'', u_is_pm = True \<rparr>],
       boards = [\<lparr> b_id = 1, b_title = ''B1'' \<rparr>, \<lparr> b_id = 2, b_title = ''B2'' \<rparr>],
       boards_users =
         [\<lparr> bu_board_id = 1, bu_user_id = 1 \<rparr>,
          \<lparr> bu_board_id = 1, bu_user_id = 2 \<rparr>,
          \<lparr> bu_board_id = 2, bu_user_id = 3 \<rparr>],
       projects =
         [\<lparr> p_id = 10, p_name = ''on B1'', p_priority = 1, p_stage = ''pending'',
            p_board_id = 1 \<rparr>,
          \<lparr> p_id = 20, p_name = ''on B2'', p_priority = 1, p_stage = ''pending'',
            p_board_id = 2 \<rparr>],
       projects_users = [],
       sessions =
         [\<lparr> s_id = 100, s_project_id = 10, s_user_id = 2, s_start_datetime = 0,
            s_end_datetime = None, s_category_id = 1, s_comment = None \<rparr>] \<rparr>"

text \<open>The token payloads of users 1, 2 and 4.\<close>

definition pm1 :: actor where
  "pm1 = \<lparr> a_id = 1, a_email = ''pm@proma.test'', a_isPm = True \<rparr>"

definition member2 :: actor where
  "member2 = \<lparr> a_id = 2, a_email = ''member@proma.test'', a_isPm = False \<rparr>"

definition pm4 :: actor where
  "pm4 = \<lparr> a_id = 4, a_email = ''newpm@proma.test'', a_isPm = True \<rparr>"

text \<open>
  Requests of an actor to a route that binds one parameter; the parameters the route
  does not bind are left empty and are not read by its chain.
\<close>

definition no_params :: "actor option \<Rightarrow> request" where
  "no_params user =
     \<lparr> locals_user = user, param_boardId = [], param_projectId = [],
       param_sessionId = [], param_userId = [] \<rparr>"

definition project_request :: "actor \<Rightarrow> string \<Rightarrow> request" where
  "project_request user projectId = (no_params (Some user))\<lparr> param_projectId := projectId \<rparr>"

definition session_request :: "actor \<Rightarrow> string \<Rightarrow> request" where
  "session_request user sessionId = (no_params (Some user))\<lparr> param_sessionId := sessionId \<rparr>"

definition user_request :: "actor \<Rightarrow> string \<Rightarrow> request" where
  "user_request user userId = (no_params (Some user))\<lparr> param_userId := userId \<rparr>"

section \<open>The boards a route is about\<close>

text \<open>
  The boards of the resource that a route's parameter names, read from the tables: the
  board itself, the board of the project, the board of the project of the session, and
  for a user every board the user is a member of. Used to state on which board a
  project manager must be a member.
\<close>

definition boards_of_board_param :: "store \<Rightarrow> request \<Rightarrow> int list" where
  "boards_of_board_param s req =
     [b_id x. x \<leftarrow> boards s, int_of_text (param_boardId req) = Some (b_id x)]"

definition boards_of_project_param :: "store \<Rightarrow> request \<Rightarrow> int list" where
  "boards_of_project_param s req =
     [p_board_id x. x \<leftarrow> projects s, int_of_text (param_projectId req) = Some (p_id x)]"

definition boards_of_session_param :: "store \<Rightarrow> request \<Rightarrow> int list" where
  "boards_of_session_param s req =
     [p_board_id p. x \<leftarrow> sessions s, int_of_text (param_sessionId req) = Some (s_id x),
                    p \<leftarrow> projects s, p_id p = s_project_id x]"

definition boards_of_user_param :: "store \<Rightarrow> request \<Rightarrow> int list" where
  "boards_of_user_param s req =
     [bu_board_id x. x \<leftarrow> boards_users s, int_of_text (param_userId req) = Some (bu_user_id x)]"

fun target_boards :: "store \<Rightarrow> request \<Rightarrow> route \<Rightarrow> int list" where
  "target_boards s req GET_board = boards_of_board_param s req"
| "target_boards s req PATCH_board = boards_of_board_param s req"
| "target_boards s req GET_board_users = boards_of_board_param s req"
| "target_boards s req POST_board_users = boards_of_board_param s req"
| "target_boards s req DELETE_board_users = boards_of_board_param s req"
| "target_boards s req GET_board_projects = boards_of_board_param s req"
| "target_boards s req POST_board_projects = boards_of_board_param s req"
| "target_boards s req GET_project = boards_of_project_param s req"
| "target_boards s req PATCH_project = boards_of_project_param s req"
| "target_boards s req GET_project_users = boards_of_project_param s req"
| "target_boards s req POST_project_users = boards_of_project_param s req"
| "target_boards s req DELETE_project_users = boards_of_project_param s req"
| "target_boards s req GET_project_sessions = boards_of_project_param s req"
| "target_boards s req POST_project_sessions = boards_of_project_param s req"
| "target_boards s req GET_session = boards_of_session_param s req"
| "target_boards s req PATCH_session = boards_of_session_param s req"
| "target_boards s req DELETE_session = boards_of_session_param s req"
| "target_boards s req GET_user = boards_of_user_param s req"
| "target_boards s req PATCH_user = boards_of_user_param s req"
| "target_boards s req GET_boards = []"
| "target_boards s req POST_boards = []"
| "target_boards s req GET_projects = []"
| "target_boards s req GET_sessions = []"
| "target_boards s req GET_users = []"
| "target_boards s req GET_users_search = []"
| "target_boards s req GET_categories = []"
| "target_boards s req POST_auth_token = []"
| "target_boards s req POST_auth_register = []"

section \<open>Properties of the query builder\<close>

lemma length_map_idx: "length (map_idx m i ks) = length ks"
  by (induction ks arbitrary: i) auto

lemma nth_map_idx: "j < length ks \<Longrightarrow> map_idx m i ks ! j = sql_fragment m (ks ! j) (i + j)"
proof (induction ks arbitrary: i j)
  case Nil
  then show ?case by simp
next
  case (Cons k ks)
  show ?case
  proof (cases j)
    case 0
    then show ?thesis by simp
  next
    case (Suc j')
    with Cons.prems have "j' < length ks" by simp
    from Cons.IH [OF this, of "Suc i"] Suc show ?thesis by simp
  qed
qed

lemma map_idx_eq_map:
  "map_idx m i ks = map (\<lambda>j. sql_fragment m (ks ! j) (i + j)) [0..<length ks]"
  by (rule nth_equalityI) (simp_all add: length_map_idx nth_map_idx)

lemma digit_char_val: "d < 10 \<Longrightarrow> (of_char (digit_char d) :: nat) - 48 = d"
proof -
  assume "d < 10"
  then have "d \<in> {0,1,2,3,4,5,6,7,8,9}" by auto
  then show ?thesis by (auto simp: digit_char_def)
qed

lemma nat_of_digits_snoc:
  "nat_of_digits a (xs @ [c]) = nat_of_digits a xs * 10 + (of_char c - 48)"
  by (induction xs arbitrary: a) auto

lemma nat_of_digits_string_of_nat: "nat_of_digits 0 (string_of_nat n) = n"
proof (induction n rule: string_of_nat.induct)
  case (1 n)
  show ?case
  proof (cases "n < 10")
    case True
    then show ?thesis by (subst string_of_nat.simps) (simp add: digit_char_val)
  next
    case False
    then have "nat_of_digits 0 (string_of_nat (n div 10)) = n div 10" using 1 by simp
    then show ?thesis using False
      by (subst string_of_nat.simps) (simp add: nat_of_digits_snoc digit_char_val)
  qed
qed

lemma string_of_nat_inject: "string_of_nat m = string_of_nat n \<Longrightarrow> m = n"
  by (metis nat_of_digits_string_of_nat)

lemma distinct_placeholders: "distinct (map (\<lambda>i. string_of_nat (i + 1)) [0..<n])"
proof -
  have "inj_on (\<lambda>i. string_of_nat (i + 1)) (set [0..<n])"
  proof (rule inj_onI)
    fix i j
    assume "string_of_nat (i + 1) = string_of_nat (j + 1)"
    then have "i + 1 = j + 1" by (rule string_of_nat_inject)
    then show "i = j" by simp
  qed
  then show ?thesis by (simp add: distinct_map)
qed

lemma sql_columns_nth:
  "i < length dataToUpdate \<Longrightarrow>
   sql_columns dataToUpdate jsToSql ! i =
     [dquote] @ sql_column jsToSql (fst (dataToUpdate ! i)) @ [dquote] @ ''=$'' @
     string_of_nat (i + 1)"
  by (simp add: sql_columns_def nth_map_idx sql_fragment_def)

lemma sql_column_mapped:
  assumes "\<forall>c \<in> ran m. c \<noteq> []" and "m k = None \<longrightarrow> object_prototype k = None"
  shows "sql_column m k = (case m k of None \<Rightarrow> k | Some c \<Rightarrow> c)"
  using assms by (auto simp: sql_column_def ran_def split: option.splits)

text \<open>
  Claim C8 does not hold of the code. \<open>jsToSql[columnName]\<close> also reads what the table
  inherits, so an attribute that the table has no entry for and whose name every
  object inherits a property under does not keep its name: for the update
  \<open>{constructor: "x"}\<close> and the empty table the claim has the fragment
  \<open>"constructor"=$1\<close>, the builder prints the inherited function as the column. For an
  attribute such as \<open>shape\<close>, which the test of the builder leaves out of the table, the
  column is the attribute name.
\<close>

theorem sqlForPartialUpdate_inherited_name:
  "sqlForPartialUpdate [(''constructor'', ''x'')] Map.empty =
     Inr \<lparr> sqlSetCols = [dquote] @ ''function Object() { [native code] }'' @ [dquote] @ ''=$1'',
           values_of = [''x''] \<rparr> \<and>
   sqlForPartialUpdate [(''shape'', ''square'')] Map.empty =
     Inr \<lparr> sqlSetCols = [dquote] @ ''shape'' @ [dquote] @ ''=$1'',
           values_of = [''square''] \<rparr>"
proof -
  have "sql_column Map.empty ''constructor'' = ''function Object() { [native code] }''"
    by (simp add: sql_column_def object_prototype_def native_function_def)
  moreover have "sql_column Map.empty ''shape'' = ''shape''"
    by (simp add: sql_column_def object_prototype_def)
  ultimately show ?thesis
    by (simp add: sqlForPartialUpdate_def sql_columns_def sql_fragment_def digit_char_def)
qed

text \<open>
  On every other input the builder does what is described. For a non-empty update and
  a table of column names (none of them the empty string, which is no column name and
  which \<open>||\<close> would replace by the attribute name), where no attribute without an
  entry in the table has a name that every object inherits a property under,
  \<open>sqlForPartialUpdate\<close> returns: as \<open>sqlSetCols\<close> the fragments \<open>"column"=$i\<close> joined
  by \<open>", "\<close>, one for each attribute in the order of the update, the column being the
  table's entry for the attribute when it has one and the attribute name otherwise,
  and the placeholder of the fragment at position \<open>i\<close> (from 0) being \<open>i + 1\<close>, so the
  placeholders run from 1 without a gap and no two are equal; and as \<open>values\<close> the
  values of the update in the same order. The number of fragments and the number of
  values are the number of attributes.
\<close>

lemma sqlForPartialUpdate_fragments:
  assumes nonempty: "dataToUpdate \<noteq> []"
    and names: "\<forall>c \<in> ran jsToSql. c \<noteq> []"
    and own: "\<forall>k \<in> set (map fst dataToUpdate). jsToSql k = None \<longrightarrow> object_prototype k = None"
  shows "\<exists>r. sqlForPartialUpdate dataToUpdate jsToSql = Inr r \<and>
           sqlSetCols r =
             join '', ''
               (map (\<lambda>i. [dquote] @
                          (case jsToSql (fst (dataToUpdate ! i)) of
                             None \<Rightarrow> fst (dataToUpdate ! i)
                           | Some c \<Rightarrow> c) @
                          [dquote] @ ''=$'' @ string_of_nat (i + 1))
                  [0..<length dataToUpdate]) \<and>
           values_of r = map snd dataToUpdate \<and>
           length (values_of r) = length dataToUpdate \<and>
           length (sql_columns dataToUpdate jsToSql) = length dataToUpdate \<and>
           distinct (map (\<lambda>i. string_of_nat (i + 1)) [0..<length dataToUpdate])"
proof -
  have col: "sql_column jsToSql (fst (dataToUpdate ! i)) =
      (case jsToSql (fst (dataToUpdate ! i)) of
         None \<Rightarrow> fst (dataToUpdate ! i)
       | Some c \<Rightarrow> c)" if "i < length dataToUpdate" for i
  proof (rule sql_column_mapped [OF names])
    from that have "fst (dataToUpdate ! i) \<in> set (map fst dataToUpdate)" by simp
    with own show "jsToSql (fst (dataToUpdate ! i)) = None \<longrightarrow>
        object_prototype (fst (dataToUpdate ! i)) = None" by blast
  qed
  have cols: "sql_columns dataToUpdate jsToSql =
      map (\<lambda>i. [dquote] @
                 (case jsToSql (fst (dataToUpdate ! i)) of
                    None \<Rightarrow> fst (dataToUpdate ! i)
                  | Some c \<Rightarrow> c) @
                 [dquote] @ ''=$'' @ string_of_nat (i + 1))
        [0..<length dataToUpdate]"
    by (rule nth_equalityI)
      (simp_all add: sql_columns_def length_map_idx sql_columns_nth [unfolded sql_columns_def] col
        split: option.splits)
  have len: "length (sql_columns dataToUpdate jsToSql) = length dataToUpdate"
    by (simp add: sql_columns_def length_map_idx)
  from nonempty have "sqlForPartialUpdate dataToUpdate jsToSql =
      Inr \<lparr> sqlSetCols = join '', '' (sql_columns dataToUpdate jsToSql),
            values_of = map snd dataToUpdate \<rparr>"
    by (simp add: sqlForPartialUpdate_def)
  with cols len distinct_placeholders show ?thesis by simp
qed

lemma sqlForPartialUpdate_fragments_example:
  "\<exists>r. sqlForPartialUpdate [(''shape'', ''square''), (''isCool'', ''false'')]
          [''isCool'' \<mapsto> ''is_cool''] = Inr r \<and>
        sqlSetCols r = [dquote] @ ''shape'' @ [dquote] @ ''=$1, '' @
                       [dquote] @ ''is_cool'' @ [dquote] @ ''=$2'' \<and>
        values_of r = [''square'', ''false'']"
proof -
  have ne: "[(''shape'', ''square''), (''isCool'', ''false'')] \<noteq> []" by simp
  have nm: "\<forall>c \<in> ran [''isCool'' \<mapsto> ''is_cool'']. c \<noteq> []" by simp
  have ow: "\<forall>k \<in> set (map fst [(''shape'', ''square''), (''isCool'', ''false'')]).
      [''isCool'' \<mapsto> ''is_cool''] k = None \<longrightarrow> object_prototype k = None"
    by (simp add: object_prototype_def)
  have up: "[0..<2] = [0, 1]" by (simp add: upt_rec)
  from sqlForPartialUpdate_fragments [OF ne nm ow] obtain r where
    r: "sqlForPartialUpdate [(''shape'', ''square''), (''isCool'', ''false'')]
          [''isCool'' \<mapsto> ''is_cool''] = Inr r"
    and c: "sqlSetCols r =
             join '', ''
               (map (\<lambda>i. [dquote] @
                          (case [''isCool'' \<mapsto> ''is_cool'']
                                  (fst ([(''shape'', ''square''), (''isCool'', ''false'')] ! i)) of
                             None \<Rightarrow> fst ([(''shape'', ''square''), (''isCool'', ''false'')] ! i)
                           | Some c \<Rightarrow> c) @
                          [dquote] @ ''=$'' @ string_of_nat (i + 1))
                  [0..<length [(''shape'', ''square''), (''isCool'', ''false'')]])"
    and v: "values_of r = map snd [(''shape'', ''square''), (''isCool'', ''false'')]"
    by blast
  from c have "sqlSetCols r = [dquote] @ ''shape'' @ [dquote] @ ''=$1, '' @
                       [dquote] @ ''is_cool'' @ [dquote] @ ''=$2''"
    by (simp add: up digit_char_def)
  with r v show ?thesis by simp
qed

text \<open>
  Claim C9. \<open>sqlForPartialUpdate\<close> throws \<open>BadRequestError\<close> exactly when the update
  has no attribute; on every other update it returns, and it throws nothing else.
\<close>

theorem sqlForPartialUpdate_BadRequest_iff:
  "(sqlForPartialUpdate dataToUpdate jsToSql = Inl BadRequest \<longleftrightarrow> dataToUpdate = []) \<and>
   (dataToUpdate \<noteq> [] \<longrightarrow> (\<exists>r. sqlForPartialUpdate dataToUpdate jsToSql = Inr r)) \<and>
   (\<forall>e. sqlForPartialUpdate dataToUpdate jsToSql = Inl e \<longrightarrow> e = BadRequest)"
proof (cases dataToUpdate)
  case Nil
  then show ?thesis by (simp add: sqlForPartialUpdate_def)
next
  case (Cons kv rest)
  then have "sqlForPartialUpdate dataToUpdate jsToSql =
      Inr \<lparr> sqlSetCols = join '', '' (sql_columns dataToUpdate jsToSql),
            values_of = map snd dataToUpdate \<rparr>"
    by (simp add: sqlForPartialUpdate_def)
  with Cons show ?thesis by simp
qed

theorem sqlForPartialUpdate_BadRequest_iff_witness:
  "sqlForPartialUpdate ([] :: (string \<times> string) list) Map.empty = Inl BadRequest \<and>
   (\<exists>r. sqlForPartialUpdate [(''email'', ''a@b.com'')] Map.empty = Inr r)"
  using sqlForPartialUpdate_BadRequest_iff [of "[] :: (string \<times> string) list" Map.empty]
    sqlForPartialUpdate_BadRequest_iff [of "[(''email'', ''a@b.com'')]" Map.empty]
  by simp

section \<open>Facts about the queries\<close>

lemma filter_key_unique:
  "distinct (map f xs) \<Longrightarrow> x \<in> set xs \<Longrightarrow> filter (\<lambda>r. f r = f x) xs = [x]"
proof (induction xs)
  case Nil
  then show ?case by simp
next
  case (Cons y ys)
  show ?case
  proof (cases "x = y")
    case True
    from Cons.prems have "f y \<notin> f ` set ys" by simp
    then have "\<forall>r \<in> set ys. f r \<noteq> f y" by (metis image_eqI)
    then have "filter (\<lambda>r. f r = f y) ys = []" by (simp add: filter_empty_conv)
    with True show ?thesis by simp
  next
    case False
    with Cons.prems have x: "x \<in> set ys" and "f y \<noteq> f x" by auto
    with Cons show ?thesis by simp
  qed
qed

lemma filter_key_absent:
  "k \<notin> set (map f xs) \<Longrightarrow> filter (\<lambda>r. f r = k) xs = []"
  by (auto simp: filter_empty_conv)

lemma filter_key_present:
  "k \<in> set (map f xs) \<Longrightarrow> \<exists>x ys. filter (\<lambda>r. f r = k) xs = x # ys \<and> x \<in> set xs \<and> f x = k"
proof -
  assume "k \<in> set (map f xs)"
  then have "filter (\<lambda>r. f r = k) xs \<noteq> []" by (auto simp: filter_empty_conv)
  then obtain x ys where e: "filter (\<lambda>r. f r = k) xs = x # ys" by (cases "filter (\<lambda>r. f r = k) xs") auto
  then have "x \<in> set (filter (\<lambda>r. f r = k) xs)" by simp
  then have "x \<in> set xs \<and> f x = k" by simp
  with e show ?thesis by blast
qed

lemma bu_row_eq:
  "(bu_user_id r = u \<and> bu_board_id r = b) = ((r :: bu_row) = \<lparr> bu_board_id = b, bu_user_id = u \<rparr>)"
  by (cases r) auto

lemma pu_row_eq:
  "(pu_user_id r = u \<and> pu_project_id r = p) = ((r :: pu_row) = \<lparr> pu_project_id = p, pu_user_id = u \<rparr>)"
  by (cases r) auto

lemma bu_match_iff:
  "(filter (\<lambda>r. bu_user_id r = u \<and> bu_board_id r = b) (boards_users s) \<noteq> []) = on_board s u b"
  by (simp add: bu_row_eq on_board_def filter_empty_conv)

lemma pu_match_iff:
  "(filter (\<lambda>r. pu_user_id r = u \<and> pu_project_id r = p) (projects_users s) \<noteq> []) = on_project s u p"
  by (simp add: pu_row_eq on_project_def filter_empty_conv)

lemma Board_isUserOnBoard_absent:
  "pg_int boardId = Some b \<Longrightarrow> b \<notin> set (map b_id (boards s)) \<Longrightarrow>
   Board_isUserOnBoard s userId boardId = Inl NotFound"
  by (simp add: Board_isUserOnBoard_def filter_key_absent)

lemma Board_isUserOnBoard_present:
  assumes "pg_int boardId = Some b" and "pg_int userId = Some u"
    and "b \<in> set (map b_id (boards s))"
  shows "Board_isUserOnBoard s userId boardId = Inr (on_board s u b)"
proof -
  from filter_key_present [OF assms(3)] obtain x ys where
    "filter (\<lambda>r. b_id r = b) (boards s) = x # ys" by blast
  with assms(1,2) show ?thesis
    by (simp add: Board_isUserOnBoard_def bu_match_iff)
qed

lemma Board_isUserOnBoard_Inr:
  assumes "Board_isUserOnBoard s userId boardId = Inr t"
  shows "\<exists>u b. pg_int userId = Some u \<and> pg_int boardId = Some b \<and>
         b \<in> set (map b_id (boards s)) \<and> t = on_board s u b"
proof -
  from assms obtain b where b: "pg_int boardId = Some b"
    by (auto simp: Board_isUserOnBoard_def split: option.splits)
  have inb: "b \<in> set (map b_id (boards s))"
  proof (rule ccontr)
    assume "b \<notin> set (map b_id (boards s))"
    from Board_isUserOnBoard_absent [OF b this] assms show False by simp
  qed
  from filter_key_present [OF inb] obtain x ys where
    f: "filter (\<lambda>r. b_id r = b) (boards s) = x # ys" by blast
  from assms b f obtain u where u: "pg_int userId = Some u"
    by (auto simp: Board_isUserOnBoard_def split: option.splits)
  from Board_isUserOnBoard_present [OF b u inb] assms have "t = on_board s u b" by simp
  with b u inb show ?thesis by blast
qed

lemma Project_getById_absent:
  "pg_int projectId = Some p \<Longrightarrow> p \<notin> set (map p_id (projects s)) \<Longrightarrow>
   Project_getById s projectId = Inl NotFound"
  by (simp add: Project_getById_def filter_key_absent)

lemma Project_getById_present:
  assumes "distinct (map p_id (projects s))" and "project \<in> set (projects s)"
    and "pg_int projectId = Some (p_id project)"
  shows "Project_getById s projectId = Inr project"
  using assms filter_key_unique [of p_id "projects s" project]
  by (simp add: Project_getById_def)

lemma Project_getById_Inr:
  "Project_getById s projectId = Inr project \<Longrightarrow>
   project \<in> set (projects s) \<and> pg_int projectId = Some (p_id project)"
proof -
  assume a: "Project_getById s projectId = Inr project"
  then obtain p where p: "pg_int projectId = Some p"
    by (auto simp: Project_getById_def split: option.splits)
  with a obtain ys where f: "filter (\<lambda>r. p_id r = p) (projects s) = project # ys"
    by (auto simp: Project_getById_def split: list.splits)
  then have "project \<in> set (filter (\<lambda>r. p_id r = p) (projects s))" by simp
  with p show ?thesis by simp
qed

lemma Session_getBoardId_absent:
  "pg_int sessionId = Some n \<Longrightarrow> n \<notin> set (map s_id (sessions s)) \<Longrightarrow>
   Session_getBoardId s sessionId = Inl NotFound"
  by (simp add: Session_getBoardId_def filter_key_absent)

text \<open>
  An id beyond the 32-bit range is no id to the store: the query that carries it
  throws, whatever the tables hold.
\<close>

lemma int_of_text_out_of_range:
  "int_of_text ''99999999999'' = None \<and> int_of_text ''2147483648'' = None \<and>
   int_of_text ''2147483647'' = Some 2147483647 \<and>
   int_of_text ''-2147483648'' = Some (- 2147483648) \<and>
   int_of_text ''-2147483649'' = None"
  by (simp add: int_of_text_def decimal_of_text_def in_int4_def is_digit_def)

lemma pg_int_out_of_range:
  "\<not> in_int4 n \<Longrightarrow> pg_int (JNum n) = None"
  by simp

lemma pg_int_Some_in_int4: "pg_int v = Some n \<Longrightarrow> in_int4 n"
  by (cases v) (auto simp: int_of_text_def split: option.splits if_splits)

lemma Project_getById_out_of_range:
  "Project_getById s (JStr ''99999999999'') = Inl DbError"
  by (simp add: Project_getById_def int_of_text_def decimal_of_text_def in_int4_def is_digit_def)

lemma Board_isUserOnBoard_out_of_range:
  "pg_int boardId = Some b \<Longrightarrow> b \<in> set (map b_id (boards s)) \<Longrightarrow>
   Board_isUserOnBoard s (JNum 2147483648) boardId = Inl DbError"
proof -
  assume b: "pg_int boardId = Some b" and inb: "b \<in> set (map b_id (boards s))"
  from filter_key_present [OF inb] obtain x ys where
    "filter (\<lambda>r. b_id r = b) (boards s) = x # ys" by blast
  with b show ?thesis by (simp add: Board_isUserOnBoard_def in_int4_def)
qed

lemma Board_removeUserFromBoard_out_of_range:
  "Board_removeUserFromBoard s (JNum 2147483648) boardId = (Inl DbError, s)"
  by (simp add: Board_removeUserFromBoard_def in_int4_def)

lemma wf_board_of_project:
  "wf_store s \<Longrightarrow> project \<in> set (projects s) \<Longrightarrow> p_board_id project \<in> set (map b_id (boards s))"
  by (auto simp: wf_store_def list_all_iff)

lemma wf_board_of_membership:
  "wf_store s \<Longrightarrow> on_board s u b \<Longrightarrow> b \<in> set (map b_id (boards s)) \<and> u \<in> set (map u_id (users s))"
  by (force simp: wf_store_def list_all_iff on_board_def)

lemma wf_int4_board_of_project:
  assumes "wf_store s" and "project \<in> set (projects s)"
  shows "in_int4 (p_board_id project)"
proof -
  from wf_board_of_project [OF assms] obtain x where
    "x \<in> set (boards s)" "b_id x = p_board_id project" by auto
  with assms(1) show ?thesis by (auto simp: wf_store_def list_all_iff)
qed

lemma wf_int4_membership:
  assumes "wf_store s" and "on_board s u b"
  shows "in_int4 u \<and> in_int4 b"
proof -
  from wf_board_of_membership [OF assms] obtain x y where
    "x \<in> set (boards s)" "b_id x = b" "y \<in> set (users s)" "u_id y = u" by auto
  with assms(1) show ?thesis by (auto simp: wf_store_def list_all_iff)
qed

section \<open>Properties of the middleware\<close>

text \<open>
  Claim C7. \<open>ensureUserOnBoardOfProject\<close> is scoped to the board of the project, and
  being a project manager changes nothing: for an actor with \<open>isPm\<close> who is a member
  of board \<open>B1\<close> and not of board \<open>B2\<close>, it ends in \<open>UnauthorizedError\<close> for a
  project of \<open>B2\<close> and in \<open>next()\<close> for a project of \<open>B1\<close>.
\<close>

theorem ensureUserOnBoardOfProject_board_scoped:
  assumes wf: "wf_store s"
    and actor: "locals_user req = Some a"
    and pm: "a_isPm a"
    and project: "project \<in> set (projects s)"
    and param: "int_of_text (param_projectId req) = Some (p_id project)"
    and on_B1: "on_board s (a_id a) B1"
    and off_B2: "\<not> on_board s (a_id a) B2"
  shows "(p_board_id project = B2 \<longrightarrow> ensureUserOnBoardOfProject s req = Inl Unauthorized) \<and>
         (p_board_id project = B1 \<longrightarrow> ensureUserOnBoardOfProject s req = Inr ())"
proof -
  from wf have "distinct (map p_id (projects s))" by (simp add: wf_store_def)
  from Project_getById_present [OF this project, of "JStr (param_projectId req)"] param
  have get: "Project_getById s (JStr (param_projectId req)) = Inr project" by simp
  have "Board_isUserOnBoard s (JNum (a_id a)) (JNum (p_board_id project)) =
        Inr (on_board s (a_id a) (p_board_id project))"
    by (rule Board_isUserOnBoard_present [OF _ _ wf_board_of_project [OF wf project]])
      (simp_all add: wf_int4_board_of_project [OF wf project] wf_int4_membership [OF wf on_B1])
  with get actor on_B1 off_B2 show ?thesis
    by (auto simp: ensureUserOnBoardOfProject_def)
qed

theorem ensureUserOnBoardOfProject_board_scoped_witness:
  "ensureUserOnBoardOfProject team (project_request pm1 ''20'') = Inl Unauthorized \<and>
   ensureUserOnBoardOfProject team (project_request pm1 ''10'') = Inr ()"
proof -
  have wf: "wf_store team" by (simp add: wf_store_def in_int4_def team_def)
  have on1: "on_board team 1 1" by (simp add: on_board_def team_def)
  have off2: "\<not> on_board team 1 2" by (simp add: on_board_def team_def)
  have p10: "\<lparr> p_id = 10, p_name = ''on B1'', p_priority = 1, p_stage = ''pending'',
               p_board_id = 1 \<rparr> \<in> set (projects team)"
    by (simp add: team_def)
  have p20: "\<lparr> p_id = 20, p_name = ''on B2'', p_priority = 1, p_stage = ''pending'',
               p_board_id = 2 \<rparr> \<in> set (projects team)"
    by (simp add: team_def)
  have t10: "int_of_text ''10'' = Some 10" by (simp add: int_of_text_def decimal_of_text_def in_int4_def is_digit_def)
  have t20: "int_of_text ''20'' = Some 20" by (simp add: int_of_text_def decimal_of_text_def in_int4_def is_digit_def)
  from ensureUserOnBoardOfProject_board_scoped [of team "project_request pm1 ''20''" _ _ 1 2, OF wf _ _ p20]
    on1 off2 t20
  have deny: "ensureUserOnBoardOfProject team (project_request pm1 ''20'') = Inl Unauthorized"
    by (simp add: project_request_def no_params_def pm1_def)
  from ensureUserOnBoardOfProject_board_scoped [of team "project_request pm1 ''10''" _ _ 1 2, OF wf _ _ p10]
    on1 off2 t10
  have allow: "ensureUserOnBoardOfProject team (project_request pm1 ''10'') = Inr ()"
    by (simp add: project_request_def no_params_def pm1_def)
  from deny allow show ?thesis by simp
qed

section \<open>Properties of the models\<close>

subsection \<open>Removing a membership\<close>






subsection \<open>Users of shared boards\<close>

lemma on_board_row: "r \<in> set (boards_users s) \<Longrightarrow> on_board s (bu_user_id r) (bu_board_id r)"
  by (cases r) (simp add: on_board_def)

lemma set_shared_join:
  "set (shared_join s n) =
   user_obj_of ` {r \<in> set (users s). \<exists>b. on_board s n b \<and> on_board s (u_id r) b}"
proof (rule set_eqI)
  fix x
  have "x \<in> set (shared_join s n) \<longleftrightarrow>
        (\<exists>r \<in> set (users s). \<exists>bu1 \<in> set (boards_users s). \<exists>bu2 \<in> set (boards_users s).
           u_id r = bu_user_id bu1 \<and> bu_board_id bu1 = bu_board_id bu2 \<and>
           bu_user_id bu2 = n \<and> x = user_obj_of r)"
    by (auto simp: shared_join_def)
  also have "\<dots> \<longleftrightarrow> (\<exists>r \<in> set (users s). \<exists>b. on_board s n b \<and> on_board s (u_id r) b \<and>
                            x = user_obj_of r)"
  proof
    assume "\<exists>r \<in> set (users s). \<exists>bu1 \<in> set (boards_users s). \<exists>bu2 \<in> set (boards_users s).
           u_id r = bu_user_id bu1 \<and> bu_board_id bu1 = bu_board_id bu2 \<and>
           bu_user_id bu2 = n \<and> x = user_obj_of r"
    then obtain r bu1 bu2 where r: "r \<in> set (users s)" "x = user_obj_of r"
      and m1: "bu1 \<in> set (boards_users s)" "u_id r = bu_user_id bu1"
      and m2: "bu2 \<in> set (boards_users s)" "bu_board_id bu1 = bu_board_id bu2" "bu_user_id bu2 = n"
      by blast
    from on_board_row [OF m1(1)] m1(2) have a: "on_board s (u_id r) (bu_board_id bu1)" by simp
    from on_board_row [OF m2(1)] m2(2,3) have b: "on_board s n (bu_board_id bu1)" by simp
    from r a b show "\<exists>r \<in> set (users s). \<exists>b. on_board s n b \<and> on_board s (u_id r) b \<and>
                            x = user_obj_of r" by blast
  next
    assume "\<exists>r \<in> set (users s). \<exists>b. on_board s n b \<and> on_board s (u_id r) b \<and> x = user_obj_of r"
    then obtain r b where r: "r \<in> set (users s)" "x = user_obj_of r"
      and a: "\<lparr> bu_board_id = b, bu_user_id = n \<rparr> \<in> set (boards_users s)"
      and c: "\<lparr> bu_board_id = b, bu_user_id = u_id r \<rparr> \<in> set (boards_users s)"
      by (auto simp: on_board_def)
    show "\<exists>r \<in> set (users s). \<exists>bu1 \<in> set (boards_users s). \<exists>bu2 \<in> set (boards_users s).
           u_id r = bu_user_id bu1 \<and> bu_board_id bu1 = bu_board_id bu2 \<and>
           bu_user_id bu2 = n \<and> x = user_obj_of r"
      by (rule bexI [OF _ r(1)], rule bexI [OF _ c], rule bexI [OF _ a]) (simp add: r(2))
  qed
  finally show "x \<in> set (shared_join s n) \<longleftrightarrow>
      x \<in> user_obj_of ` {r \<in> set (users s). \<exists>b. on_board s n b \<and> on_board s (u_id r) b}"
    by blast
qed

lemma uo_id_user_obj_of: "uo_id (user_obj_of r) = u_id r"
  by (simp add: user_obj_of_def)

lemma User_getAllFromSharedBoards_absent:
  "pg_int userId = Some u \<Longrightarrow> u \<notin> set (map u_id (users s)) \<Longrightarrow>
   User_getAllFromSharedBoards s userId = Inl NotFound"
  by (simp add: User_getAllFromSharedBoards_def filter_key_absent)

lemma User_getAllFromSharedBoards_present:
  assumes "pg_int userId = Some u" and "u \<in> set (map u_id (users s))"
  shows "User_getAllFromSharedBoards s userId = Inr (remdups (shared_join s u))"
proof -
  from filter_key_present [OF assms(2)] obtain x ys where
    "filter (\<lambda>r. u_id r = u) (users s) = x # ys" by blast
  with assms(1) show ?thesis by (simp add: User_getAllFromSharedBoards_def)
qed

lemma shared_ids:
  assumes wf: "wf_store s"
  shows "uo_id ` set (shared_join s u) = {v. \<exists>b. on_board s u b \<and> on_board s v b}"
proof (rule set_eqI)
  fix v
  show "v \<in> uo_id ` set (shared_join s u) \<longleftrightarrow> v \<in> {v. \<exists>b. on_board s u b \<and> on_board s v b}"
  proof
    assume "v \<in> uo_id ` set (shared_join s u)"
    then show "v \<in> {v. \<exists>b. on_board s u b \<and> on_board s v b}"
      by (auto simp: set_shared_join uo_id_user_obj_of)
  next
    assume "v \<in> {v. \<exists>b. on_board s u b \<and> on_board s v b}"
    then obtain b where b: "on_board s u b" "on_board s v b" by blast
    from wf_board_of_membership [OF wf b(2)] obtain r where
      r: "r \<in> set (users s)" "u_id r = v" by auto
    with b have "user_obj_of r \<in> set (shared_join s u)"
      by (auto simp: set_shared_join)
    then have "uo_id (user_obj_of r) \<in> uo_id ` set (shared_join s u)" by (rule imageI)
    with r show "v \<in> uo_id ` set (shared_join s u)" by (simp add: uo_id_user_obj_of)
  qed
qed

lemma shared_ids_inj:
  assumes wf: "wf_store s"
  shows "inj_on uo_id (set (shared_join s u))"
proof (rule inj_onI)
  fix x y
  assume x: "x \<in> set (shared_join s u)" and y: "y \<in> set (shared_join s u)"
    and eq: "uo_id x = uo_id y"
  from x obtain r where r: "r \<in> set (users s)" "x = user_obj_of r"
    by (auto simp: set_shared_join)
  from y obtain t where t: "t \<in> set (users s)" "y = user_obj_of t"
    by (auto simp: set_shared_join)
  from eq r t have "u_id r = u_id t" by (simp add: uo_id_user_obj_of)
  moreover from wf have "inj_on u_id (set (users s))"
    by (simp add: wf_store_def distinct_map)
  ultimately have "r = t" using r(1) t(1) by (auto dest: inj_onD)
  with r t show "x = y" by simp
qed

text \<open>
  Claim C5, as amended. For a user that exists in the store,
  \<open>User.getAllFromSharedBoards\<close> returns, without a duplicate, the users who are
  members of a board that the user is a member of. The user is among them exactly
  when the user is a member of some board: for a user on no board the result is empty.
\<close>

theorem getAllFromSharedBoards_shared_users:
  assumes wf: "wf_store s"
    and u: "pg_int userId = Some u"
    and exists: "u \<in> set (map u_id (users s))"
  shows "\<exists>rows. User_getAllFromSharedBoards s userId = Inr rows \<and>
           distinct rows \<and>
           distinct (map uo_id rows) \<and>
           set rows =
             user_obj_of ` {r \<in> set (users s). \<exists>b. on_board s u b \<and> on_board s (u_id r) b} \<and>
           set (map uo_id rows) = {v. \<exists>b. on_board s u b \<and> on_board s v b} \<and>
           (u \<in> set (map uo_id rows) \<longleftrightarrow> (\<exists>b. on_board s u b)) \<and>
           (rows = [] \<longleftrightarrow> \<not> (\<exists>b. on_board s u b))"
proof -
  define rows where "rows = remdups (shared_join s u)"
  have res: "User_getAllFromSharedBoards s userId = Inr rows"
    unfolding rows_def by (rule User_getAllFromSharedBoards_present [OF u exists])
  have d: "distinct rows" by (simp add: rows_def)
  have rs: "set rows =
      user_obj_of ` {r \<in> set (users s). \<exists>b. on_board s u b \<and> on_board s (u_id r) b}"
    by (simp add: rows_def set_shared_join)
  have ids: "set (map uo_id rows) = {v. \<exists>b. on_board s u b \<and> on_board s v b}"
    using shared_ids [OF wf, of u] by (simp add: rows_def)
  from shared_ids_inj [OF wf, of u] have "inj_on uo_id (set rows)" by (simp add: rows_def)
  with d have di: "distinct (map uo_id rows)" by (simp add: distinct_map)
  from ids have self: "u \<in> set (map uo_id rows) \<longleftrightarrow> (\<exists>b. on_board s u b)" by blast
  have none: "rows = [] \<longleftrightarrow> \<not> (\<exists>b. on_board s u b)"
  proof
    assume "rows = []"
    then have "u \<notin> set (map uo_id rows)" by simp
    with self show "\<not> (\<exists>b. on_board s u b)" by simp
  next
    assume "\<not> (\<exists>b. on_board s u b)"
    then have "{v. \<exists>b. on_board s u b \<and> on_board s v b} = {}" by blast
    with ids show "rows = []" by simp
  qed
  show ?thesis
    by (rule exI [of _ rows], intro conjI) (fact res d di rs ids self none)+
qed

lemma wf_team: "wf_store team"
  by (simp add: wf_store_def in_int4_def team_def)

theorem getAllFromSharedBoards_shared_users_witness:
  "\<exists>rows. User_getAllFromSharedBoards team (JStr ''1'') = Inr rows \<and>
          set (map uo_id rows) = {1, 2} \<and> distinct (map uo_id rows)"
proof -
  have u: "pg_int (JStr ''1'') = Some 1" by (simp add: int_of_text_def decimal_of_text_def in_int4_def is_digit_def)
  have ex: "1 \<in> set (map u_id (users team))" by (simp add: team_def)
  have "{v. \<exists>b. on_board team 1 b \<and> on_board team v b} = {1, 2}"
    by (auto simp: on_board_def team_def)
  with getAllFromSharedBoards_shared_users [OF wf_team u ex] show ?thesis by auto
qed

text \<open>
  Claim C5 as stated fails for user 4 of the example store, who exists and is on no
  board: the result is empty and so does not contain the user.
\<close>

theorem getAllFromSharedBoards_no_board_counterexample:
  "wf_store team \<and> 4 \<in> set (map u_id (users team)) \<and>
   User_getAllFromSharedBoards team (JNum 4) = Inr []"
proof -
  have "4 \<in> set (map u_id (users team))" by (simp add: team_def)
  moreover have "User_getAllFromSharedBoards team (JNum 4) = Inr []"
    by (simp add: User_getAllFromSharedBoards_def shared_join_def team_def in_int4_def)
  ultimately show ?thesis using wf_team by blast
qed

subsection \<open>Existence checks of the lookups\<close>

lemma Project_isUserOnProject_eq:
  "pg_int userId = Some u \<Longrightarrow> pg_int projectId = Some p \<Longrightarrow>
   Project_isUserOnProject s userId projectId = Inr (on_project s u p)"
  by (simp add: Project_isUserOnProject_def pu_match_iff)

lemma Board_isUserOnBoard_NotFound_iff:
  assumes b: "pg_int boardId = Some b"
  shows "Board_isUserOnBoard s userId boardId = Inl NotFound \<longleftrightarrow>
         b \<notin> set (map b_id (boards s))"
proof
  assume nf: "Board_isUserOnBoard s userId boardId = Inl NotFound"
  show "b \<notin> set (map b_id (boards s))"
  proof
    assume "b \<in> set (map b_id (boards s))"
    from filter_key_present [OF this] obtain x ys where
      "filter (\<lambda>r. b_id r = b) (boards s) = x # ys" by blast
    with b nf show False
      by (simp add: Board_isUserOnBoard_def split: option.splits)
  qed
next
  assume "b \<notin> set (map b_id (boards s))"
  then show "Board_isUserOnBoard s userId boardId = Inl NotFound"
    by (rule Board_isUserOnBoard_absent [OF b])
qed

lemma Project_getById_NotFound_iff:
  assumes p: "pg_int projectId = Some p"
  shows "Project_getById s projectId = Inl NotFound \<longleftrightarrow> p \<notin> set (map p_id (projects s))"
proof
  assume nf: "Project_getById s projectId = Inl NotFound"
  show "p \<notin> set (map p_id (projects s))"
  proof
    assume "p \<in> set (map p_id (projects s))"
    from filter_key_present [OF this] obtain x ys where
      "filter (\<lambda>r. p_id r = p) (projects s) = x # ys" by blast
    with p nf show False by (simp add: Project_getById_def)
  qed
next
  assume "p \<notin> set (map p_id (projects s))"
  then show "Project_getById s projectId = Inl NotFound"
    by (rule Project_getById_absent [OF p])
qed

lemma Session_getBoardId_NotFound_iff:
  assumes n: "pg_int sessionId = Some n"
  shows "Session_getBoardId s sessionId = Inl NotFound \<longleftrightarrow> n \<notin> set (map s_id (sessions s))"
proof
  assume nf: "Session_getBoardId s sessionId = Inl NotFound"
  show "n \<notin> set (map s_id (sessions s))"
  proof
    assume "n \<in> set (map s_id (sessions s))"
    from filter_key_present [OF this] obtain x ys where
      "filter (\<lambda>r. s_id r = n) (sessions s) = x # ys" by blast
    with n nf show False by (simp add: Session_getBoardId_def split: list.splits)
  qed
next
  assume "n \<notin> set (map s_id (sessions s))"
  then show "Session_getBoardId s sessionId = Inl NotFound"
    by (rule Session_getBoardId_absent [OF n])
qed

lemma Board_isUserOnBoard_absent_user:
  assumes wf: "wf_store s"
    and u: "pg_int userId = Some u" and nu: "u \<notin> set (map u_id (users s))"
    and b: "pg_int boardId = Some b" and inb: "b \<in> set (map b_id (boards s))"
  shows "Board_isUserOnBoard s userId boardId = Inr False"
proof -
  from wf_board_of_membership [OF wf, of u b] nu have "\<not> on_board s u b" by blast
  with Board_isUserOnBoard_present [OF b u inb] show ?thesis by simp
qed

text \<open>
  Claim C6, as amended. \<open>Board.isUserOnBoard\<close> throws \<open>NotFoundError\<close> exactly when
  the board is absent, \<open>Project.getById\<close> (the lookup behind the board of a project)
  exactly when the project is absent, and \<open>Session.getBoardId\<close> exactly when the
  session is absent; \<open>NotFoundError\<close> is a thrown error and not the value \<open>false\<close>.
  The user is not looked up: on an existing board \<open>Board.isUserOnBoard\<close> returns
  whether the membership row exists, which is \<open>false\<close> for a user who is absent from
  the store. (The ids are values that the store reads as 32-bit integers; on any other
  value the query itself throws.)
\<close>

theorem resolver_existence_checks:
  "(pg_int boardId = Some b \<longrightarrow>
      (Board_isUserOnBoard s userId boardId = Inl NotFound \<longleftrightarrow>
       b \<notin> set (map b_id (boards s)))) \<and>
   (pg_int projectId = Some p \<longrightarrow>
      (Project_getById s projectId = Inl NotFound \<longleftrightarrow>
       p \<notin> set (map p_id (projects s)))) \<and>
   (pg_int sessionId = Some n \<longrightarrow>
      (Session_getBoardId s sessionId = Inl NotFound \<longleftrightarrow>
       n \<notin> set (map s_id (sessions s)))) \<and>
   (pg_int userId = Some u \<and> pg_int boardId = Some b \<and> b \<in> set (map b_id (boards s)) \<longrightarrow>
      Board_isUserOnBoard s userId boardId = Inr (on_board s u b)) \<and>
   (wf_store s \<and> pg_int userId = Some u \<and> u \<notin> set (map u_id (users s)) \<and>
    pg_int boardId = Some b \<and> b \<in> set (map b_id (boards s)) \<longrightarrow>
      Board_isUserOnBoard s userId boardId = Inr False)"
  using Board_isUserOnBoard_NotFound_iff [of boardId b s userId]
    Project_getById_NotFound_iff [of projectId p s]
    Session_getBoardId_NotFound_iff [of sessionId n s]
    Board_isUserOnBoard_present [of boardId b userId u s]
    Board_isUserOnBoard_absent_user [of s userId u boardId b]
  by blast

theorem resolver_existence_checks_witness:
  "Board_isUserOnBoard team (JNum 1) (JStr ''9'') = Inl NotFound \<and>
   Project_getById team (JStr ''99'') = Inl NotFound \<and>
   Session_getBoardId team (JStr ''999'') = Inl NotFound \<and>
   Board_isUserOnBoard team (JNum 1) (JStr ''1'') = Inr True \<and>
   Board_isUserOnBoard team (JNum 99) (JStr ''1'') = Inr False"
proof -
  have t1: "pg_int (JStr ''1'') = Some 1" by (simp add: int_of_text_def decimal_of_text_def in_int4_def is_digit_def)
  have t9: "pg_int (JStr ''9'') = Some 9" by (simp add: int_of_text_def decimal_of_text_def in_int4_def is_digit_def)
  have t99: "pg_int (JStr ''99'') = Some 99" by (simp add: int_of_text_def decimal_of_text_def in_int4_def is_digit_def)
  have t999: "pg_int (JStr ''999'') = Some 999" by (simp add: int_of_text_def decimal_of_text_def in_int4_def is_digit_def)
  have n1: "pg_int (JNum 1) = Some 1" and n99: "pg_int (JNum 99) = Some 99"
    by (simp_all add: in_int4_def)
  have b9: "9 \<notin> set (map b_id (boards team))" by (simp add: team_def)
  have b1: "1 \<in> set (map b_id (boards team))" by (simp add: team_def)
  have p99: "99 \<notin> set (map p_id (projects team))" by (simp add: team_def)
  have s999: "999 \<notin> set (map s_id (sessions team))" by (simp add: team_def)
  have u99: "99 \<notin> set (map u_id (users team))" by (simp add: team_def)
  have on11: "on_board team 1 1" by (simp add: on_board_def team_def)
  from resolver_existence_checks [of "JStr ''9''" 9 team "JNum 1" "JStr ''99''" 99 "JStr ''999''" 999 1]
    t9 t99 t999 b9 p99 s999
  have absent: "Board_isUserOnBoard team (JNum 1) (JStr ''9'') = Inl NotFound \<and>
    Project_getById team (JStr ''99'') = Inl NotFound \<and>
    Session_getBoardId team (JStr ''999'') = Inl NotFound" by blast
  from resolver_existence_checks [of "JStr ''1''" 1 team "JNum 1" "JStr ''99''" 99 "JStr ''999''" 999 1]
    t1 n1 b1 on11
  have member: "Board_isUserOnBoard team (JNum 1) (JStr ''1'') = Inr True" by simp
  from resolver_existence_checks [of "JStr ''1''" 1 team "JNum 99" "JStr ''99''" 99 "JStr ''999''" 999 99]
    t1 n99 b1 u99 wf_team
  have nouser: "Board_isUserOnBoard team (JNum 99) (JStr ''1'') = Inr False" by blast
  from absent member nouser show ?thesis by blast
qed

text \<open>
  Claim C6 as stated fails for the user id 99, which is absent from the example store:
  \<open>Board.isUserOnBoard\<close> on board 1 returns \<open>false\<close> and does not throw.
\<close>

theorem isUserOnBoard_absent_user_counterexample:
  "99 \<notin> set (map u_id (users team)) \<and>
   Board_isUserOnBoard team (JNum 99) (JStr ''1'') = Inr False"
proof -
  have "99 \<notin> set (map u_id (users team))" by (simp add: team_def)
  moreover have "Board_isUserOnBoard team (JNum 99) (JStr ''1'') = Inr False"
    by (simp add: Board_isUserOnBoard_def team_def int_of_text_def decimal_of_text_def in_int4_def is_digit_def)
  ultimately show ?thesis by blast
qed

section \<open>Facts about the middleware\<close>

lemma Session_getById_Some:
  assumes "Session_getById s sessionId = Inr (Some session)"
  shows "session \<in> set (sessions s) \<and> pg_int sessionId = Some (s_id session)"
proof -
  from assms obtain n where n: "pg_int sessionId = Some n"
    by (auto simp: Session_getById_def split: option.splits)
  with assms obtain ys where f: "filter (\<lambda>r. s_id r = n) (sessions s) = session # ys"
    by (auto simp: Session_getById_def split: list.splits)
  then have "session \<in> set (filter (\<lambda>r. s_id r = n) (sessions s))" by simp
  with n show ?thesis by simp
qed

lemma Session_getById_absent:
  "pg_int sessionId = Some n \<Longrightarrow> n \<notin> set (map s_id (sessions s)) \<Longrightarrow>
   Session_getById s sessionId = Inr None"
  by (simp add: Session_getById_def filter_key_absent)

lemma User_getAllFromSharedBoards_Inr:
  assumes "User_getAllFromSharedBoards s userId = Inr rows"
  shows "\<exists>n. pg_int userId = Some n \<and> n \<in> set (map u_id (users s)) \<and>
             rows = remdups (shared_join s n)"
proof -
  from assms obtain n where n: "pg_int userId = Some n"
    by (auto simp: User_getAllFromSharedBoards_def split: option.splits)
  have inu: "n \<in> set (map u_id (users s))"
  proof (rule ccontr)
    assume "n \<notin> set (map u_id (users s))"
    from User_getAllFromSharedBoards_absent [OF n this] assms show False by simp
  qed
  from User_getAllFromSharedBoards_present [OF n inu] assms n inu show ?thesis by simp
qed

text \<open>What each middleware has established when it calls \<open>next()\<close>.\<close>

lemma ensureLoggedIn_allowed:
  "ensureLoggedIn s req = Inr () \<longleftrightarrow> locals_user req \<noteq> None"
  by (simp add: ensureLoggedIn_def split: option.splits)

lemma ensurePm_allowed:
  "ensurePm s req = Inr () \<longleftrightarrow> (\<exists>a. locals_user req = Some a \<and> a_isPm a)"
  by (simp add: ensurePm_def split: option.splits)

lemma ensureUserOnBoard_allowed:
  assumes "ensureUserOnBoard s req = Inr ()"
  shows "\<exists>a b. locals_user req = Some a \<and> int_of_text (param_boardId req) = Some b \<and>
               b \<in> set (map b_id (boards s)) \<and> on_board s (a_id a) b"
proof -
  from assms obtain a where a: "locals_user req = Some a"
    by (auto simp: ensureUserOnBoard_def split: option.splits)
  with assms have "Board_isUserOnBoard s (JNum (a_id a)) (JStr (param_boardId req)) = Inr True"
    by (auto simp: ensureUserOnBoard_def split: sum.splits if_splits)
  from Board_isUserOnBoard_Inr [OF this] a show ?thesis by (auto split: if_splits)
qed

lemma ensureUserOnBoardOfProject_allowed:
  assumes "ensureUserOnBoardOfProject s req = Inr ()"
  shows "\<exists>a project. locals_user req = Some a \<and> project \<in> set (projects s) \<and>
           int_of_text (param_projectId req) = Some (p_id project) \<and>
           on_board s (a_id a) (p_board_id project)"
proof -
  from assms obtain project where
    p: "Project_getById s (JStr (param_projectId req)) = Inr project"
    by (auto simp: ensureUserOnBoardOfProject_def split: sum.splits)
  with assms obtain a where a: "locals_user req = Some a"
    by (auto simp: ensureUserOnBoardOfProject_def split: option.splits)
  with assms p have
    "Board_isUserOnBoard s (JNum (a_id a)) (JNum (p_board_id project)) = Inr True"
    by (auto simp: ensureUserOnBoardOfProject_def split: sum.splits if_splits)
  from Board_isUserOnBoard_Inr [OF this] Project_getById_Inr [OF p] a show ?thesis
    by (auto split: if_splits)
qed

text \<open>
  The three middlewares that read \<open>isPm\<close>, each as a function of what its queries
  returned.
\<close>

lemma ensureUserOnSessionOrPm_found:
  assumes "Session_getById s (JStr (param_sessionId req)) = Inr (Some session)"
    and "Project_getById s (JNum (s_project_id session)) = Inr project"
    and "locals_user req = Some a"
    and "Board_isUserOnBoard s (JNum (a_id a)) (JNum (p_board_id project)) = Inr t"
  shows "ensureUserOnSessionOrPm s req =
         (if s_user_id session = a_id a \<or> (a_isPm a \<and> t) then Inr () else Inl Unauthorized)"
  using assms by (simp add: ensureUserOnSessionOrPm_def)

lemma ensureUserOnSessionOrPm_allowed:
  assumes "ensureUserOnSessionOrPm s req = Inr ()"
  shows "\<exists>session project a t.
           Session_getById s (JStr (param_sessionId req)) = Inr (Some session) \<and>
           Project_getById s (JNum (s_project_id session)) = Inr project \<and>
           locals_user req = Some a \<and>
           Board_isUserOnBoard s (JNum (a_id a)) (JNum (p_board_id project)) = Inr t"
  using assms unfolding ensureUserOnSessionOrPm_def
  by (simp split: sum.splits option.splits)

lemma ensureUserOnProjectOrPm_found:
  assumes "Project_getById s (JStr (param_projectId req)) = Inr project"
    and "locals_user req = Some a"
    and "Project_isUserOnProject s (JNum (a_id a)) (JStr (param_projectId req)) = Inr m"
    and "Board_isUserOnBoard s (JNum (a_id a)) (JNum (p_board_id project)) = Inr t"
  shows "ensureUserOnProjectOrPm s req = (if m \<or> t then Inr () else Inl Unauthorized)"
  using assms by (simp add: ensureUserOnProjectOrPm_def)

lemma ensureCorrectUserOrSharedBoardPm_found:
  assumes "User_getAllFromSharedBoards s (JStr (param_userId req)) = Inr sharedUsers"
    and "locals_user req = Some a"
  shows "ensureCorrectUserOrSharedBoardPm s req =
         (if a_isPm a \<and> a_id a \<in> set (map uo_id sharedUsers) then Inr ()
          else Inl Unauthorized)"
proof -
  have "list_ex (\<lambda>sharedUser. strict_eq (JNum (uo_id sharedUser)) (JNum (a_id a))) sharedUsers
        = (a_id a \<in> set (map uo_id sharedUsers))"
    by (force simp: list_ex_iff)
  with assms show ?thesis by (simp add: ensureCorrectUserOrSharedBoardPm_def)
qed

lemma ensureCorrectUserOrSharedBoardPm_allowed:
  assumes "ensureCorrectUserOrSharedBoardPm s req = Inr ()"
  shows "\<exists>sharedUsers a.
           User_getAllFromSharedBoards s (JStr (param_userId req)) = Inr sharedUsers \<and>
           locals_user req = Some a"
  using assms unfolding ensureCorrectUserOrSharedBoardPm_def
  by (simp split: sum.splits option.splits)

text \<open>The other middlewares of the routes do not read \<open>isPm\<close>.\<close>

lemma isPm_not_read:
  assumes "g \<in> {LoggedIn, UserOnBoard, UserOnBoardOfProject, UserOnSessionBoard,
               UserOnProjectOrPm, UserOnSharedBoard}"
  shows "run_guard s (req\<lparr> locals_user := Some (a\<lparr> a_isPm := x \<rparr>) \<rparr>) g =
         run_guard s (req\<lparr> locals_user := Some a \<rparr>) g"
  using assms
  by (auto simp: ensureLoggedIn_def ensureUserOnBoard_def ensureUserOnBoardOfProject_def
      ensureUserOnSessionBoard_def ensureUserOnProjectOrPm_def ensureUserOnSharedBoard_def
      split: sum.splits)

section \<open>Three defects of the middleware\<close>

text \<open>
  Claim C1 does not hold of the code. \<open>ensureUserOnProjectOrPm\<close> names
  \<open>isPmOnBoard\<close> the result of \<open>Board.isUserOnBoard(user.id, project.boardId)\<close> and
  never reads \<open>user.isPm\<close>. User 2 of the example store is no project manager, is a
  member of board 1 and is not assigned to project 10 of that board: the claim has the
  request refused, the middleware calls \<open>next()\<close>.
\<close>

theorem ensureUserOnProjectOrPm_allows_member_of_board:
  "\<not> a_isPm member2 \<and>
   on_board team (a_id member2) 1 \<and>
   \<not> on_project team (a_id member2) 10 \<and>
   map p_board_id (filter (\<lambda>r. p_id r = 10) (projects team)) = [1] \<and>
   ensureUserOnProjectOrPm team (project_request member2 ''10'') = Inr ()"
proof -
  have "\<not> a_isPm member2" by (simp add: member2_def)
  moreover have "on_board team (a_id member2) 1"
    by (simp add: on_board_def team_def member2_def)
  moreover have "\<not> on_project team (a_id member2) 10"
    by (simp add: on_project_def team_def member2_def)
  moreover have "map p_board_id (filter (\<lambda>r. p_id r = 10) (projects team)) = [1]"
    by (simp add: team_def)
  moreover have "ensureUserOnProjectOrPm team (project_request member2 ''10'') = Inr ()"
    by (simp add: ensureUserOnProjectOrPm_def Project_getById_def Project_isUserOnProject_def
        Board_isUserOnBoard_def project_request_def no_params_def member2_def team_def
        int_of_text_def decimal_of_text_def in_int4_def is_digit_def)
  ultimately show ?thesis by blast
qed

text \<open>
  Claim C3 does not hold of the code. \<open>user.id === req.params.userId\<close> compares the
  number of the token with the string of the route, and \<open>===\<close> never holds between a
  number and a string. User 2 of the example store, no project manager, asks for the
  user with the id 2: the claim has the request allowed, the middleware ends in
  \<open>UnauthorizedError\<close>. On the same request \<open>ensureCorrectUserOrPm\<close>, which converts
  both sides to numbers, calls \<open>next()\<close>.
\<close>

theorem ensureCorrectUserOrSharedBoardPm_denies_own_id:
  "a_id member2 = 2 \<and>
   pg_int (JStr ''2'') = Some 2 \<and>
   2 \<in> set (map u_id (users team)) \<and>
   ensureCorrectUserOrSharedBoardPm team (user_request member2 ''2'') = Inl Unauthorized \<and>
   ensureCorrectUserOrPm team (user_request member2 ''2'') = Inr ()"
proof -
  have "a_id member2 = 2" by (simp add: member2_def)
  moreover have "pg_int (JStr ''2'') = Some 2" by (simp add: int_of_text_def decimal_of_text_def in_int4_def is_digit_def)
  moreover have "2 \<in> set (map u_id (users team))" by (simp add: team_def)
  moreover have
    "ensureCorrectUserOrSharedBoardPm team (user_request member2 ''2'') = Inl Unauthorized"
    by (simp add: ensureCorrectUserOrSharedBoardPm_def User_getAllFromSharedBoards_def
        shared_join_def user_obj_of_def user_request_def no_params_def member2_def team_def
        int_of_text_def decimal_of_text_def in_int4_def is_digit_def)
  moreover have "ensureCorrectUserOrPm team (user_request member2 ''2'') = Inr ()"
    by (simp add: ensureCorrectUserOrPm_def js_parseInt_def is_space_def is_digit_def
        user_request_def no_params_def member2_def)
  ultimately show ?thesis by blast
qed

text \<open>
  Claim C4 does not hold of the code. \<open>Session.getById\<close> returns \<open>undefined\<close> for a
  session that is absent, and \<open>ensureUserOnSessionOrPm\<close> then reads
  \<open>session.projectId\<close>: the claim has \<open>NotFoundError\<close>, the middleware ends in a
  \<open>TypeError\<close>. On the same request \<open>ensureUserOnSessionBoard\<close>, which looks the
  session up through \<open>Session.getBoardId\<close>, ends in \<open>NotFoundError\<close>.
\<close>

theorem ensureUserOnSessionOrPm_absent_session_TypeError:
  "pg_int (JStr ''999'') = Some 999 \<and>
   999 \<notin> set (map s_id (sessions team)) \<and>
   ensureUserOnSessionOrPm team (session_request member2 ''999'') = Inl TypeError \<and>
   ensureUserOnSessionBoard team (session_request member2 ''999'') = Inl NotFound"
proof -
  have "pg_int (JStr ''999'') = Some 999" by (simp add: int_of_text_def decimal_of_text_def in_int4_def is_digit_def)
  moreover have "999 \<notin> set (map s_id (sessions team))" by (simp add: team_def)
  moreover have
    "ensureUserOnSessionOrPm team (session_request member2 ''999'') = Inl TypeError"
    by (simp add: ensureUserOnSessionOrPm_def Session_getById_def session_request_def
        no_params_def team_def int_of_text_def decimal_of_text_def in_int4_def is_digit_def)
  moreover have
    "ensureUserOnSessionBoard team (session_request member2 ''999'') = Inl NotFound"
    by (simp add: ensureUserOnSessionBoard_def Session_getBoardId_def session_request_def
        no_params_def team_def int_of_text_def decimal_of_text_def in_int4_def is_digit_def)
  ultimately show ?thesis by blast
qed

text \<open>The same three behaviours on every store.\<close>

lemma ensureUserOnProjectOrPm_on_board:
  assumes wf: "wf_store s"
    and actor: "locals_user req = Some a"
    and id: "in_int4 (a_id a)"
    and project: "project \<in> set (projects s)"
    and param: "int_of_text (param_projectId req) = Some (p_id project)"
  shows "ensureUserOnProjectOrPm s req =
         (if on_project s (a_id a) (p_id project) \<or> on_board s (a_id a) (p_board_id project)
          then Inr () else Inl Unauthorized)"
proof -
  from wf have "distinct (map p_id (projects s))" by (simp add: wf_store_def)
  from Project_getById_present [OF this project, of "JStr (param_projectId req)"] param
  have get: "Project_getById s (JStr (param_projectId req)) = Inr project" by simp
  have onp: "Project_isUserOnProject s (JNum (a_id a)) (JStr (param_projectId req)) =
      Inr (on_project s (a_id a) (p_id project))"
    by (rule Project_isUserOnProject_eq) (simp_all add: param id)
  have onb: "Board_isUserOnBoard s (JNum (a_id a)) (JNum (p_board_id project)) =
        Inr (on_board s (a_id a) (p_board_id project))"
    by (rule Board_isUserOnBoard_present [OF _ _ wf_board_of_project [OF wf project]])
      (simp_all add: id wf_int4_board_of_project [OF wf project])
  from ensureUserOnProjectOrPm_found [OF get actor onp onb] show ?thesis .
qed

lemma ensureCorrectUserOrSharedBoardPm_not_pm:
  assumes "locals_user req = Some a" and "\<not> a_isPm a"
  shows "ensureCorrectUserOrSharedBoardPm s req \<noteq> Inr ()"
proof
  assume ok: "ensureCorrectUserOrSharedBoardPm s req = Inr ()"
  from ensureCorrectUserOrSharedBoardPm_allowed [OF ok] assms(1) obtain sharedUsers where
    "User_getAllFromSharedBoards s (JStr (param_userId req)) = Inr sharedUsers" by auto
  from ensureCorrectUserOrSharedBoardPm_found [OF this assms(1)] assms(2) ok
  show False by simp
qed

lemma ensureUserOnSessionOrPm_absent:
  assumes "int_of_text (param_sessionId req) = Some n"
    and "n \<notin> set (map s_id (sessions s))"
  shows "ensureUserOnSessionOrPm s req = Inl TypeError"
proof -
  have "Session_getById s (JStr (param_sessionId req)) = Inr None"
    by (rule Session_getById_absent [OF _ assms(2)]) (simp add: assms(1))
  then show ?thesis by (simp add: ensureUserOnSessionOrPm_def)
qed

section \<open>The project-manager flag and the routes\<close>

lemma run_chain_isPm_not_read:
  assumes "set gs \<subseteq> {LoggedIn, UserOnBoard, UserOnBoardOfProject, UserOnSessionBoard,
                       UserOnProjectOrPm, UserOnSharedBoard}"
  shows "run_chain s (req\<lparr> locals_user := Some (a\<lparr> a_isPm := x \<rparr>) \<rparr>) gs =
         run_chain s (req\<lparr> locals_user := Some a \<rparr>) gs"
  using assms
proof (induction gs)
  case Nil
  then show ?case by simp
next
  case (Cons g gs)
  then have "g \<in> {LoggedIn, UserOnBoard, UserOnBoardOfProject, UserOnSessionBoard,
                  UserOnProjectOrPm, UserOnSharedBoard}" by simp
  from isPm_not_read [where s = s and req = req and a = a and x = x, OF this] Cons show ?case
    by (simp split: sum.splits)
qed

lemma pm_then_on_board:
  assumes "run_chain s (req\<lparr> locals_user := Some a \<rparr>) [Pm, UserOnBoard] = Inr ()"
  shows "a_isPm a \<and> (\<exists>b \<in> set (boards_of_board_param s req). on_board s (a_id a) b)"
proof -
  from assms have pm: "ensurePm s (req\<lparr> locals_user := Some a \<rparr>) = Inr ()"
    and ob: "ensureUserOnBoard s (req\<lparr> locals_user := Some a \<rparr>) = Inr ()"
    by (simp_all split: sum.splits)
  from pm have isPm: "a_isPm a" by (simp add: ensurePm_allowed)
  from ensureUserOnBoard_allowed [OF ob] obtain b where
    b: "int_of_text (param_boardId req) = Some b" "b \<in> set (map b_id (boards s))"
      "on_board s (a_id a) b" by auto
  then have "b \<in> set (boards_of_board_param s req)"
    by (auto simp: boards_of_board_param_def)
  with isPm b(3) show ?thesis by blast
qed

lemma pm_then_on_board_of_project:
  assumes "run_chain s (req\<lparr> locals_user := Some a \<rparr>) [Pm, UserOnBoardOfProject] = Inr ()"
  shows "a_isPm a \<and> (\<exists>b \<in> set (boards_of_project_param s req). on_board s (a_id a) b)"
proof -
  from assms have pm: "ensurePm s (req\<lparr> locals_user := Some a \<rparr>) = Inr ()"
    and ob: "ensureUserOnBoardOfProject s (req\<lparr> locals_user := Some a \<rparr>) = Inr ()"
    by (simp_all split: sum.splits)
  from pm have isPm: "a_isPm a" by (simp add: ensurePm_allowed)
  from ensureUserOnBoardOfProject_allowed [OF ob] obtain project where
    p: "project \<in> set (projects s)" "int_of_text (param_projectId req) = Some (p_id project)"
      "on_board s (a_id a) (p_board_id project)" by auto
  then have "p_board_id project \<in> set (boards_of_project_param s req)"
    by (auto simp: boards_of_project_param_def)
  with isPm p(3) show ?thesis by blast
qed

lemma session_owner_or_pm:
  assumes allowed:
      "run_chain s (req\<lparr> locals_user := Some a \<rparr>) [LoggedIn, UserOnSessionOrPm] = Inr ()"
    and by_isPm:
      "run_chain s (req\<lparr> locals_user := Some (a\<lparr> a_isPm := False \<rparr>) \<rparr>)
         [LoggedIn, UserOnSessionOrPm] \<noteq> Inr ()"
  shows "a_isPm a \<and> (\<exists>b \<in> set (boards_of_session_param s req). on_board s (a_id a) b)"
proof -
  from allowed have ok: "ensureUserOnSessionOrPm s (req\<lparr> locals_user := Some a \<rparr>) = Inr ()"
    by (simp add: ensureLoggedIn_def split: sum.splits)
  from by_isPm have no:
    "ensureUserOnSessionOrPm s (req\<lparr> locals_user := Some (a\<lparr> a_isPm := False \<rparr>) \<rparr>) \<noteq> Inr ()"
    by (simp add: ensureLoggedIn_def split: sum.splits)
  from ensureUserOnSessionOrPm_allowed [OF ok] obtain session project t where
    se: "Session_getById s (JStr (param_sessionId req)) = Inr (Some session)"
    and pr: "Project_getById s (JNum (s_project_id session)) = Inr project"
    and bo: "Board_isUserOnBoard s (JNum (a_id a)) (JNum (p_board_id project)) = Inr t"
    by auto
  from ensureUserOnSessionOrPm_found [of s "req\<lparr> locals_user := Some a \<rparr>" session project a t]
    se pr bo ok
  have c1: "s_user_id session = a_id a \<or> (a_isPm a \<and> t)"
    by (simp split: if_splits)
  from ensureUserOnSessionOrPm_found
    [of s "req\<lparr> locals_user := Some (a\<lparr> a_isPm := False \<rparr>) \<rparr>" session project
      "a\<lparr> a_isPm := False \<rparr>" t]
    se pr bo no
  have c2: "s_user_id session \<noteq> a_id a"
    by (simp split: if_splits)
  from c1 c2 have isPm: "a_isPm a" and t: "t" by auto
  from Board_isUserOnBoard_Inr [OF bo] t have on: "on_board s (a_id a) (p_board_id project)"
    by (auto split: if_splits)
  from Session_getById_Some [OF se] have
    s1: "session \<in> set (sessions s)" "int_of_text (param_sessionId req) = Some (s_id session)"
    by auto
  from Project_getById_Inr [OF pr] have
    p1: "project \<in> set (projects s)" "p_id project = s_project_id session"
    by (auto split: if_splits)
  from s1 p1 have "p_board_id project \<in> set (boards_of_session_param s req)"
    by (auto simp: boards_of_session_param_def)
  with isPm on show ?thesis by blast
qed

lemma shared_board_pm:
  assumes allowed:
      "run_chain s (req\<lparr> locals_user := Some a \<rparr>) [LoggedIn, CorrectUserOrSharedBoardPm] = Inr ()"
  shows "a_isPm a \<and> (\<exists>b \<in> set (boards_of_user_param s req). on_board s (a_id a) b)"
proof -
  from allowed have
    ok: "ensureCorrectUserOrSharedBoardPm s (req\<lparr> locals_user := Some a \<rparr>) = Inr ()"
    by (simp add: ensureLoggedIn_def split: sum.splits)
  from ensureCorrectUserOrSharedBoardPm_allowed [OF ok] obtain sharedUsers where
    sh: "User_getAllFromSharedBoards s (JStr (param_userId req)) = Inr sharedUsers"
    by auto
  from ensureCorrectUserOrSharedBoardPm_found
    [of s "req\<lparr> locals_user := Some a \<rparr>" sharedUsers a] sh ok
  have isPm: "a_isPm a" and mem: "a_id a \<in> set (map uo_id sharedUsers)"
    by (simp_all split: if_splits)
  from User_getAllFromSharedBoards_Inr [OF sh] obtain n where
    n: "int_of_text (param_userId req) = Some n" "sharedUsers = remdups (shared_join s n)"
    by auto
  from mem n(2) obtain x where x: "x \<in> set (shared_join s n)" "uo_id x = a_id a" by auto
  then obtain r b where "on_board s n b" "on_board s (u_id r) b" "x = user_obj_of r"
    by (auto simp: set_shared_join)
  with x(2) have b: "on_board s n b" "on_board s (a_id a) b"
    by (simp_all add: uo_id_user_obj_of)
  from b(1) n(1) have "b \<in> set (boards_of_user_param s req)"
    by (force simp: boards_of_user_param_def on_board_def)
  with isPm b(2) show ?thesis by blast
qed

text \<open>
  Claim C2, as amended. On every route but the creation of a board, \<open>isPm\<close>
  authorizes only together with a membership: when the chain of the route lets an
  actor through and would not let the same actor through without \<open>isPm\<close>, the actor
  is a member of a board of the resource the route names (the board of the route, of
  its project or of its session's project; for a route about a user, a board that user
  is a member of).
\<close>

theorem isPm_authorizes_on_target_board:
  assumes route: "r \<noteq> POST_boards"
    and allowed: "run_chain s (req\<lparr> locals_user := Some a \<rparr>) (chain r) = Inr ()"
    and by_isPm:
      "run_chain s (req\<lparr> locals_user := Some (a\<lparr> a_isPm := False \<rparr>) \<rparr>) (chain r) \<noteq> Inr ()"
  shows "a_isPm a \<and> (\<exists>b \<in> set (target_boards s req r). on_board s (a_id a) b)"
proof -
  consider
      (board) "chain r = [Pm, UserOnBoard]" "target_boards s req r = boards_of_board_param s req"
    | (project) "chain r = [Pm, UserOnBoardOfProject]"
        "target_boards s req r = boards_of_project_param s req"
    | (session) "chain r = [LoggedIn, UserOnSessionOrPm]"
        "target_boards s req r = boards_of_session_param s req"
    | (user) "chain r = [LoggedIn, CorrectUserOrSharedBoardPm]"
        "target_boards s req r = boards_of_user_param s req"
    | (other) "set (chain r) \<subseteq> {LoggedIn, UserOnBoard, UserOnBoardOfProject,
                 UserOnSessionBoard, UserOnProjectOrPm, UserOnSharedBoard}"
    using route by (cases r) simp_all
  then show ?thesis
  proof cases
    case board
    with allowed have "run_chain s (req\<lparr> locals_user := Some a \<rparr>) [Pm, UserOnBoard] = Inr ()"
      by simp
    from pm_then_on_board [OF this] board show ?thesis by simp
  next
    case project
    with allowed have
      "run_chain s (req\<lparr> locals_user := Some a \<rparr>) [Pm, UserOnBoardOfProject] = Inr ()"
      by simp
    from pm_then_on_board_of_project [OF this] project show ?thesis by simp
  next
    case session
    with allowed have a1:
      "run_chain s (req\<lparr> locals_user := Some a \<rparr>) [LoggedIn, UserOnSessionOrPm] = Inr ()"
      by simp
    from session by_isPm have a2:
      "run_chain s (req\<lparr> locals_user := Some (a\<lparr> a_isPm := False \<rparr>) \<rparr>)
         [LoggedIn, UserOnSessionOrPm] \<noteq> Inr ()"
      by simp
    from session_owner_or_pm [OF a1 a2] session show ?thesis by simp
  next
    case user
    with allowed have
      "run_chain s (req\<lparr> locals_user := Some a \<rparr>) [LoggedIn, CorrectUserOrSharedBoardPm] =
       Inr ()"
      by simp
    from shared_board_pm [OF this] user show ?thesis by simp
  next
    case other
    from run_chain_isPm_not_read [where s = s and req = req and a = a and x = False, OF other] allowed by_isPm
    show ?thesis by simp
  qed
qed

theorem isPm_authorizes_on_target_board_witness:
  "run_chain team (session_request pm1 ''100'') (chain PATCH_session) = Inr () \<and>
   run_chain team (session_request (pm1\<lparr> a_isPm := False \<rparr>) ''100'') (chain PATCH_session) =
     Inl Unauthorized \<and>
   a_isPm pm1 \<and>
   (\<exists>b \<in> set (target_boards team (session_request pm1 ''100'') PATCH_session).
      on_board team (a_id pm1) b)"
proof -
  have r: "PATCH_session \<noteq> POST_boards" by simp
  have u1: "(session_request pm1 ''100'')\<lparr> locals_user := Some pm1 \<rparr> =
            session_request pm1 ''100''"
    by (simp add: session_request_def no_params_def)
  have u2: "(session_request pm1 ''100'')\<lparr> locals_user := Some (pm1\<lparr> a_isPm := False \<rparr>) \<rparr> =
            session_request (pm1\<lparr> a_isPm := False \<rparr>) ''100''"
    by (simp add: session_request_def no_params_def)
  have allowed: "run_chain team (session_request pm1 ''100'') (chain PATCH_session) = Inr ()"
    by (simp add: ensureLoggedIn_def ensureUserOnSessionOrPm_def Session_getById_def
        Project_getById_def Board_isUserOnBoard_def session_request_def no_params_def
        pm1_def team_def int_of_text_def decimal_of_text_def in_int4_def is_digit_def)
  have denied:
    "run_chain team (session_request (pm1\<lparr> a_isPm := False \<rparr>) ''100'') (chain PATCH_session) =
       Inl Unauthorized"
    by (simp add: ensureLoggedIn_def ensureUserOnSessionOrPm_def Session_getById_def
        Project_getById_def Board_isUserOnBoard_def session_request_def no_params_def
        pm1_def team_def int_of_text_def decimal_of_text_def in_int4_def is_digit_def)
  from isPm_authorizes_on_target_board
    [where r = PATCH_session and s = team and req = "session_request pm1 ''100''" and a = pm1,
      OF r]
    allowed denied
  have "a_isPm pm1 \<and>
   (\<exists>b \<in> set (target_boards team (session_request pm1 ''100'') PATCH_session).
      on_board team (a_id pm1) b)"
    by (simp only: u1 u2) simp
  with allowed denied show ?thesis by blast
qed

text \<open>
  Claim C2 as stated fails for the creation of a board: \<open>POST /boards\<close> is guarded by
  \<open>ensurePm\<close> alone, and user 4 of the example store, a project manager on no board, is
  let through, which the same user without \<open>isPm\<close> is not.
\<close>

theorem create_board_isPm_alone_counterexample:
  "chain POST_boards = [Pm] \<and>
   filter (\<lambda>r. bu_user_id r = a_id pm4) (boards_users team) = [] \<and>
   run_chain team (no_params (Some pm4)) (chain POST_boards) = Inr () \<and>
   run_chain team (no_params (Some (pm4\<lparr> a_isPm := False \<rparr>))) (chain POST_boards) =
     Inl Unauthorized"
proof -
  have "filter (\<lambda>r. bu_user_id r = a_id pm4) (boards_users team) = []"
    by (simp add: pm4_def team_def)
  moreover have "run_chain team (no_params (Some pm4)) (chain POST_boards) = Inr ()"
    by (simp add: ensurePm_def no_params_def pm4_def)
  moreover have
    "run_chain team (no_params (Some (pm4\<lparr> a_isPm := False \<rparr>))) (chain POST_boards) =
       Inl Unauthorized"
    by (simp add: ensurePm_def no_params_def pm4_def)
  ultimately show ?thesis by simp
qed

text \<open>
  \<open>ensureCorrectUserOrPm\<close>, which no route uses, also lets every project manager
  through.
\<close>

lemma ensureCorrectUserOrPm_isPm:
  "locals_user req = Some a \<Longrightarrow> a_isPm a \<Longrightarrow> ensureCorrectUserOrPm s req = Inr ()"
  by (simp add: ensureCorrectUserOrPm_def)

end
